theory Spec2Isabelle
  imports Complex_Main "HOL-Library.Sublist"
begin

section \<open>JavaScript values as produced by \<^verbatim>\<open>JSON.parse\<close>\<close>

text \<open>
  The generator reads one JSON document and inspects it with JavaScript's dynamic
  operators (truthiness, \<^verbatim>\<open>||\<close>, \<^verbatim>\<open>&&\<close>, \<^verbatim>\<open>?.\<close>, \<^verbatim>\<open>Number\<close>,
  \<^verbatim>\<open>Object.values\<close>, \<^verbatim>\<open>includes\<close>). The model therefore works on the parsed value.

  A number is the value of an IEEE double: a rational, or one of the two infinities
  (\<^verbatim>\<open>JSON.parse("1e999")\<close> is \<^verbatim>\<open>Infinity\<close>); \<^verbatim>\<open>NaN\<close> only arises from conversions.
  Negative zero is identified with zero: the program never tells them apart.
  An object is the list of its own properties in enumeration order (the order of
  \<^verbatim>\<open>Object.values\<close>), each key occurring once.

  A string value is the list of its UTF-16 code units, so that it can hold every
  character a JSON document can; \<open>lit\<close> gives the code units of a literal of the program.
  Property names are kept as plain strings: the program looks up fixed ASCII names only
  and \<^verbatim>\<open>Object.values\<close> does not depend on the names, so that a name with other
  characters can stand under any unused name.
\<close>

type_synonym jsstring = "nat list"

definition codeUnit :: "char \<Rightarrow> nat" where
  "codeUnit c = of_char c"

definition lit :: "string \<Rightarrow> jsstring" where
  "lit s = map codeUnit s"

datatype jsnum = NaN | PosInf | NegInf | Fin rat

datatype jsval =
    JUndefined
  | JNull
  | JBool bool
  | JNum jsnum
  | JStr jsstring
  | JArr "jsval list"
  | JObj "(string \<times> jsval) list"

text \<open>
  A text built from values: its pieces are code units, or the decimal print of a number,
  which is left as it is (\<^verbatim>\<open>Number::toString\<close> is a matter of floating point).
\<close>

datatype piece = Chars jsstring | NumberText jsnum

type_synonym jstext = "piece list"

text \<open>
  Every failure of the two variants is a thrown \<^verbatim>\<open>Error\<close> with a message, or a
  \<^verbatim>\<open>TypeError\<close> raised by the runtime: on a property read of \<^verbatim>\<open>undefined\<close> or
  \<^verbatim>\<open>null\<close>, or on the conversion of an object that has no primitive value. The
  constructors name the throw sites after the error kinds of the specification and
  carry the message:
  \<^item> \<open>ConfigLoadError m\<close>, \<open>MissingRequiredFieldError m\<close>, \<open>VestingDataError m\<close>,
    \<open>UnlockingDataError m\<close>, \<open>InvalidAgentReferenceError m\<close>: the message \<open>m\<close>;
  \<^item> \<open>TemplateNotFoundError n\<close>: \<^verbatim>\<open>Template not found: \<close> followed by the path of the
    template \<open>n\<close> in the template directory;
  \<^item> \<open>RenderError\<close>: whatever the template engine or the file write throws.
\<close>

datatype error =
    ConfigLoadError jsstring
  | TypeError
  | MissingRequiredFieldError string
  | VestingDataError string
  | UnlockingDataError string
  | InvalidAgentReferenceError jstext
  | TemplateNotFoundError string
  | RenderError

subsection \<open>Truthiness and property reads\<close>

fun truthy :: "jsval \<Rightarrow> bool" where
  "truthy JUndefined = False"
| "truthy JNull = False"
| "truthy (JBool b) = b"
| "truthy (JNum n) = (n \<noteq> Fin 0 \<and> n \<noteq> NaN)"
| "truthy (JStr s) = (s \<noteq> [])"
| "truthy (JArr xs) = True"
| "truthy (JObj kvs) = True"

text \<open>\<^verbatim>\<open>a || b\<close> and \<^verbatim>\<open>a && b\<close> on values whose evaluation cannot throw.\<close>

definition js_or :: "jsval \<Rightarrow> jsval \<Rightarrow> jsval" where
  "js_or a b = (if truthy a then a else b)"

text \<open>
  \<^verbatim>\<open>a.k\<close>: a \<^verbatim>\<open>TypeError\<close> on \<^verbatim>\<open>undefined\<close> and \<^verbatim>\<open>null\<close>, the own property of an
  object, \<^verbatim>\<open>undefined\<close> otherwise. The program reads only the names
  \<^verbatim>\<open>initialData\<close>, \<^verbatim>\<open>tokenName\<close>, \<^verbatim>\<open>rows\<close>, \<^verbatim>\<open>amount\<close>, ..., none of which is a
  built-in property of a number, string, boolean, array or object.
\<close>

fun getProp :: "jsval \<Rightarrow> string \<Rightarrow> error + jsval" where
  "getProp JUndefined k = Inl TypeError"
| "getProp JNull k = Inl TypeError"
| "getProp (JObj kvs) k = Inr (case map_of kvs k of None \<Rightarrow> JUndefined | Some v \<Rightarrow> v)"
| "getProp v k = Inr JUndefined"

text \<open>\<^verbatim>\<open>a?.k\<close>: \<^verbatim>\<open>undefined\<close> where \<^verbatim>\<open>a.k\<close> would throw.\<close>

definition optProp :: "jsval \<Rightarrow> string \<Rightarrow> jsval" where
  "optProp a k = (case getProp a k of Inl e \<Rightarrow> JUndefined | Inr v \<Rightarrow> v)"

text \<open>
  \<^verbatim>\<open>getRowsArray\<close>: \<^verbatim>\<open>Object.values\<close> of an object or an array, the empty array for
  everything that is falsy or not of type \<^verbatim>\<open>'object'\<close>.
\<close>

fun getRowsArray :: "jsval \<Rightarrow> jsval list" where
  "getRowsArray (JObj kvs) = map snd kvs"
| "getRowsArray (JArr xs) = xs"
| "getRowsArray v = []"

subsection \<open>\<^verbatim>\<open>Number(s)\<close> of a string\<close>

text \<open>
  Conversion of a string follows the grammar of \<^verbatim>\<open>StringNumericLiteral\<close>: surrounding
  white space and line terminators (those of Unicode that the language lists) are dropped, the empty string is 0, then an optionally signed decimal
  literal (digits, fraction, exponent, or \<^verbatim>\<open>Infinity\<close>) or an unsigned binary, octal or
  hexadecimal literal; anything else is \<^verbatim>\<open>NaN\<close>. The result is rounded to a double only
  as far as the program can observe: a magnitude of at most \<open>2\<^sup>-\<^sup>1\<^sup>0\<^sup>7\<^sup>5\<close> becomes 0 and one of
  at least \<open>2\<^sup>1\<^sup>0\<^sup>2\<^sup>4 - 2\<^sup>9\<^sup>7\<^sup>0\<close> becomes infinite; the rounding of the mantissa is left out,
  since the program only tests numbers against zero.
\<close>

definition isWhiteSpace :: "nat \<Rightarrow> bool" where
  "isWhiteSpace c =
     (c \<in> set [0x09, 0x0A, 0x0B, 0x0C, 0x0D, 0x20, 0xA0, 0x1680, 0x2000, 0x2001, 0x2002, 0x2003,
                0x2004, 0x2005, 0x2006, 0x2007, 0x2008, 0x2009, 0x200A, 0x2028, 0x2029, 0x202F,
                0x205F, 0x3000, 0xFEFF])"

definition trimString :: "jsstring \<Rightarrow> jsstring" where
  "trimString s = rev (dropWhile isWhiteSpace (rev (dropWhile isWhiteSpace s)))"

definition isDigit :: "nat \<Rightarrow> bool" where
  "isDigit c = (codeUnit CHR ''0'' \<le> c \<and> c \<le> codeUnit CHR ''9'')"

definition hexDigitValue :: "nat \<Rightarrow> nat option" where
  "hexDigitValue c =
     (if isDigit c then Some (c - codeUnit CHR ''0'')
      else if codeUnit CHR ''a'' \<le> c \<and> c \<le> codeUnit CHR ''f'' then Some (c - codeUnit CHR ''a'' + 10)
      else if codeUnit CHR ''A'' \<le> c \<and> c \<le> codeUnit CHR ''F'' then Some (c - codeUnit CHR ''A'' + 10)
      else None)"

text \<open>The value of a non-empty digit string in the given base, \<open>None\<close> if a character is no digit of it.\<close>

fun digitsIn :: "nat \<Rightarrow> nat \<Rightarrow> jsstring \<Rightarrow> nat option" where
  "digitsIn base acc [] = Some acc"
| "digitsIn base acc (c # cs) =
     (case hexDigitValue c of
        None \<Rightarrow> None
      | Some d \<Rightarrow> if d < base then digitsIn base (base * acc + d) cs else None)"

definition digitsValue :: "nat \<Rightarrow> jsstring \<Rightarrow> nat option" where
  "digitsValue base s = (if s = [] then None else digitsIn base 0 s)"

definition decimalValue :: "jsstring \<Rightarrow> nat" where
  "decimalValue s = foldl (\<lambda>acc c. 10 * acc + (case hexDigitValue c of None \<Rightarrow> 0 | Some d \<Rightarrow> d)) 0 s"

definition toDouble :: "rat \<Rightarrow> jsnum" where
  "toDouble r =
     (if \<bar>r\<bar> \<le> 1 / 2 ^ 1075 then Fin 0
      else if 2 ^ 1024 - 2 ^ 970 \<le> \<bar>r\<bar> then (if 0 < r then PosInf else NegInf)
      else Fin r)"

definition parseExponent :: "jsstring \<Rightarrow> int option" where
  "parseExponent s =
     (case s of
        [] \<Rightarrow> Some 0
      | c # r \<Rightarrow>
          if c = codeUnit CHR ''e'' \<or> c = codeUnit CHR ''E'' then
            (case r of
               [] \<Rightarrow> None
             | d # ds \<Rightarrow>
                 if d = codeUnit CHR ''+'' then map_option int (digitsValue 10 ds)
                 else if d = codeUnit CHR ''-'' then map_option (\<lambda>n. - int n) (digitsValue 10 ds)
                 else map_option int (digitsValue 10 r))
          else None)"

definition scale10 :: "rat \<Rightarrow> int \<Rightarrow> rat" where
  "scale10 m e = (if 0 \<le> e then m * 10 ^ nat e else m / 10 ^ nat (- e))"

definition strUnsignedDecimalLiteral :: "jsstring \<Rightarrow> jsnum" where
  "strUnsignedDecimalLiteral s =
     (if s = lit ''Infinity'' then PosInf
      else
        let ip = takeWhile isDigit s;
            r1 = dropWhile isDigit s;
            fp = (case r1 of
                    [] \<Rightarrow> []
                  | c # t \<Rightarrow> if c = codeUnit CHR ''.'' then takeWhile isDigit t else []);
            r2 = (case r1 of
                    [] \<Rightarrow> []
                  | c # t \<Rightarrow> if c = codeUnit CHR ''.'' then dropWhile isDigit t else r1)
        in if ip = [] \<and> fp = [] then NaN
           else
             (case parseExponent r2 of
                None \<Rightarrow> NaN
              | Some e \<Rightarrow>
                  toDouble (scale10
                    (of_nat (decimalValue ip) + of_nat (decimalValue fp) / 10 ^ length fp) e)))"

definition negate :: "jsnum \<Rightarrow> jsnum" where
  "negate n = (case n of NaN \<Rightarrow> NaN | PosInf \<Rightarrow> NegInf | NegInf \<Rightarrow> PosInf | Fin r \<Rightarrow> Fin (- r))"

definition strDecimalLiteral :: "jsstring \<Rightarrow> jsnum" where
  "strDecimalLiteral s =
     (case s of
        [] \<Rightarrow> NaN
      | c # t \<Rightarrow>
          if c = codeUnit CHR ''+'' then strUnsignedDecimalLiteral t
          else if c = codeUnit CHR ''-'' then negate (strUnsignedDecimalLiteral t)
          else strUnsignedDecimalLiteral s)"

definition nonDecimalBase :: "jsstring \<Rightarrow> nat option" where
  "nonDecimalBase s =
     (case s of
        c # x # ds \<Rightarrow>
          if c \<noteq> codeUnit CHR ''0'' then None
          else if x = codeUnit CHR ''b'' \<or> x = codeUnit CHR ''B'' then Some 2
          else if x = codeUnit CHR ''o'' \<or> x = codeUnit CHR ''O'' then Some 8
          else if x = codeUnit CHR ''x'' \<or> x = codeUnit CHR ''X'' then Some 16
          else None
      | _ \<Rightarrow> None)"

definition stringToNumber :: "jsstring \<Rightarrow> jsnum" where
  "stringToNumber s =
     (let t = trimString s
      in if t = [] then Fin 0
         else
           (case nonDecimalBase t of
              Some base \<Rightarrow>
                (case digitsValue base (drop 2 t) of
                   None \<Rightarrow> NaN
                 | Some n \<Rightarrow> toDouble (of_nat n))
            | None \<Rightarrow> strDecimalLiteral t))"

subsection \<open>\<^verbatim>\<open>String(v)\<close>, \<^verbatim>\<open>join\<close> and \<^verbatim>\<open>Number(v)\<close> of objects\<close>

text \<open>
  An object is converted through its \<^verbatim>\<open>toString\<close> and \<^verbatim>\<open>valueOf\<close>. A value parsed from
  JSON is never a function, so an object with an own property \<^verbatim>\<open>toString\<close> hides the
  inherited method behind something that cannot be called; the inherited \<^verbatim>\<open>valueOf\<close>
  returns the object itself, and the conversion ends in a \<^verbatim>\<open>TypeError\<close>. Every other
  object prints as \<^verbatim>\<open>[object Object]\<close>. An array prints as its \<^verbatim>\<open>join(',')\<close>, and
  \<^verbatim>\<open>join\<close> prints \<^verbatim>\<open>undefined\<close> and \<^verbatim>\<open>null\<close> as the empty text and every other
  element with \<^verbatim>\<open>String\<close>, from left to right.
\<close>

fun joinPieces :: "jstext \<Rightarrow> jstext list \<Rightarrow> jstext" where
  "joinPieces sep [] = []"
| "joinPieces sep [t] = t"
| "joinPieces sep (t # u # us) = t @ sep @ joinPieces sep (u # us)"

fun jsToString :: "jsval \<Rightarrow> error + jstext"
  and elementTexts :: "jsval list \<Rightarrow> error + jstext list" where
  "jsToString JUndefined = Inr [Chars (lit ''undefined'')]"
| "jsToString JNull = Inr [Chars (lit ''null'')]"
| "jsToString (JBool b) = Inr [Chars (lit (if b then ''true'' else ''false''))]"
| "jsToString (JNum n) = Inr [NumberText n]"
| "jsToString (JStr s) = Inr [Chars s]"
| "jsToString (JObj kvs) =
     (if map_of kvs ''toString'' \<noteq> None then Inl TypeError
      else Inr [Chars (lit ''[object Object]'')])"
| "jsToString (JArr xs) =
     (case elementTexts xs of
        Inl e \<Rightarrow> Inl e
      | Inr ts \<Rightarrow> Inr (joinPieces [Chars (lit '','')] ts))"
| "elementTexts [] = Inr []"
| "elementTexts (x # xs) =
     (case (if x = JUndefined \<or> x = JNull then Inr [] else jsToString x) of
        Inl e \<Rightarrow> Inl e
      | Inr t \<Rightarrow> (case elementTexts xs of Inl e \<Rightarrow> Inl e | Inr ts \<Rightarrow> Inr (t # ts)))"

text \<open>\<^verbatim>\<open>xs.join(sep)\<close>.\<close>

definition arrayJoin :: "jsstring \<Rightarrow> jsval list \<Rightarrow> error + jstext" where
  "arrayJoin sep xs =
     (case elementTexts xs of
        Inl e \<Rightarrow> Inl e
      | Inr ts \<Rightarrow> Inr (joinPieces [Chars sep] ts))"

text \<open>
  \<^verbatim>\<open>Number\<close> of an array converts the text of its \<^verbatim>\<open>join(',')\<close>, once that text has been
  built: the empty array gives the empty string, which is 0; a one-element array gives
  the text of its element (empty for \<^verbatim>\<open>null\<close>; a number prints to a text that reads back
  as itself); two or more elements give a text with a comma, which is no numeric
  literal. \<^verbatim>\<open>Number\<close> of an object that prints as \<^verbatim>\<open>[object Object]\<close> is \<^verbatim>\<open>NaN\<close>.
\<close>

fun arrayNumber :: "jsval list \<Rightarrow> jsnum" where
  "arrayNumber [] = Fin 0"
| "arrayNumber [JUndefined] = Fin 0"
| "arrayNumber [JNull] = Fin 0"
| "arrayNumber [JBool b] = NaN"
| "arrayNumber [JNum n] = n"
| "arrayNumber [JStr s] = stringToNumber s"
| "arrayNumber [JObj kvs] = NaN"
| "arrayNumber [JArr xs] = arrayNumber xs"
| "arrayNumber (x # y # zs) = NaN"

fun toNumber :: "jsval \<Rightarrow> error + jsnum" where
  "toNumber JUndefined = Inr NaN"
| "toNumber JNull = Inr (Fin 0)"
| "toNumber (JBool b) = Inr (if b then Fin 1 else Fin 0)"
| "toNumber (JNum n) = Inr n"
| "toNumber (JStr s) = Inr (stringToNumber s)"
| "toNumber (JObj kvs) = (if map_of kvs ''toString'' \<noteq> None then Inl TypeError else Inr NaN)"
| "toNumber (JArr xs) =
     (case elementTexts xs of
        Inl e \<Rightarrow> Inl e
      | Inr ts \<Rightarrow> Inr (arrayNumber xs))"

text \<open>\<^verbatim>\<open>n > 0\<close> on numbers.\<close>

fun gtZero :: "jsnum \<Rightarrow> bool" where
  "gtZero (Fin r) = (0 < r)"
| "gtZero PosInf = True"
| "gtZero NegInf = False"
| "gtZero NaN = False"

section \<open>The staged pipeline (\<^verbatim>\<open>generate_contracts.js\<close>)\<close>

subsection \<open>Template catalog\<close>

text \<open>
  A descriptor's \<^verbatim>\<open>service\<close> is absent, one name or an array of names; an absent
  \<^verbatim>\<open>required\<close> reads as \<^verbatim>\<open>undefined\<close>, which is falsy.
\<close>

datatype serviceField = NoService | OneService string | AnyService "string list"

record template =
  inputName :: string
  outputName :: string
  required :: bool
  service :: serviceField

definition ALL_TEMPLATES :: "template list" where
  "ALL_TEMPLATES =
     [\<lparr>inputName = ''Token.sol.hbs'', outputName = ''Token.sol'', required = True, service = NoService\<rparr>,
      \<lparr>inputName = ''Vesting.sol.hbs'', outputName = ''Vesting.sol'', required = False,
         service = OneService ''vesting''\<rparr>,
      \<lparr>inputName = ''PoolManager.sol.hbs'', outputName = ''PoolManager.sol'', required = False,
         service = AnyService [''vesting'', ''unlocking'', ''pools'']\<rparr>,
      \<lparr>inputName = ''IToken.sol.hbs'', outputName = ''IToken.sol'', required = True, service = NoService\<rparr>,
      \<lparr>inputName = ''Unlocking.sol.hbs'', outputName = ''Unlocking.sol'', required = False,
         service = OneService ''unlocking''\<rparr>,
      \<lparr>inputName = ''IPoolManager.sol.hbs'', outputName = ''IPoolManager.sol'', required = False,
         service = AnyService [''vesting'', ''unlocking'', ''pools'']\<rparr>]"

subsection \<open>\<^verbatim>\<open>loadProjectData\<close>\<close>

record projectData =
  initialData :: jsval
  vestingAndUnlocking :: jsval
  pools :: jsval
  agents :: jsval
  investmentRounds :: jsval
  projectServices :: jsval

definition emptyRows :: jsval where
  "emptyRows = JObj [(''rows'', JObj [])]"

definition defaultVestingAndUnlocking :: jsval where
  "defaultVestingAndUnlocking =
     JObj [(''tables'', JObj [(''unlocking'', emptyRows), (''vesting'', emptyRows)])]"

definition defaultPools :: jsval where
  "defaultPools = JObj [(''tables'', JObj [(''pools'', emptyRows)])]"

definition defaultProjectServices :: jsval where
  "defaultProjectServices =
     JObj [(''serviceTables'', JObj [(''staking'', emptyRows), (''farming'', emptyRows)])]"

definition loadFailureMessage :: "jsstring \<Rightarrow> jsstring" where
  "loadFailureMessage message =
     lit ''Failed to read or parse JSON file at tokenomicsData.json: '' @ message"

definition missingFieldsMessage :: string where
  "missingFieldsMessage =
     ''Missing required fields in JSON: initialData.tokenName and ''
     @ ''initialData.totalTokensAmount are required''"

text \<open>
  The argument is what \<^verbatim>\<open>JSON.parse(fs.readFileSync(jsonPath, 'utf8'))\<close> gave: the parsed
  document, or the message of the exception. Each \<^verbatim>\<open>jsonData.section\<close> is a property
  read, so a document that is \<^verbatim>\<open>null\<close> ends in a \<^verbatim>\<open>TypeError\<close> at the first of
  them; once that read has succeeded the others cannot throw. Nor can the reads of
  \<^verbatim>\<open>projectData.initialData.tokenName\<close> and \<^verbatim>\<open>totalTokensAmount\<close>, since
  \<^verbatim>\<open>initialData\<close> is truthy by then.
\<close>

definition loadProjectData :: "jsstring + jsval \<Rightarrow> error + projectData" where
  "loadProjectData file =
     (case file of
        Inl message \<Rightarrow> Inl (ConfigLoadError (loadFailureMessage message))
      | Inr jsonData \<Rightarrow>
          (case getProp jsonData ''initialData'' of
             Inl e \<Rightarrow> Inl e
           | Inr _ \<Rightarrow>
               let projectData =
                 \<lparr>initialData = js_or (optProp jsonData ''initialData'') (JObj []),
                  vestingAndUnlocking =
                    js_or (optProp jsonData ''vestingAndUnlocking'') defaultVestingAndUnlocking,
                  pools = js_or (optProp jsonData ''pools'') defaultPools,
                  agents = js_or (optProp jsonData ''agents'') emptyRows,
                  investmentRounds = js_or (optProp jsonData ''investmentRounds'') emptyRows,
                  projectServices =
                    js_or (optProp jsonData ''projectServices'') defaultProjectServices\<rparr>
               in if \<not> truthy (optProp (initialData projectData) ''tokenName'')
                     \<or> \<not> truthy (optProp (initialData projectData) ''totalTokensAmount'')
                  then Inl (MissingRequiredFieldError missingFieldsMessage)
                  else Inr projectData))"

subsection \<open>\<^verbatim>\<open>determineActiveServices\<close>\<close>

text \<open>\<^verbatim>\<open>xs.some(p)\<close> for a callback that may throw: it stops at the first hit.\<close>

fun someE :: "('a \<Rightarrow> error + bool) \<Rightarrow> 'a list \<Rightarrow> error + bool" where
  "someE p [] = Inr False"
| "someE p (x # xs) =
     (case p x of
        Inl e \<Rightarrow> Inl e
      | Inr b \<Rightarrow> if b then Inr True else someE p xs)"

text \<open>
  The callback \<^verbatim>\<open>row => row.amount && Number(row.amount) > 0\<close>, read for its truthiness:
  a falsy amount is not converted.
\<close>

definition amountPositive :: "jsval \<Rightarrow> error + bool" where
  "amountPositive row =
     (case getProp row ''amount'' of
        Inl e \<Rightarrow> Inl e
      | Inr amount \<Rightarrow>
          if truthy amount then
            (case toNumber amount of
               Inl e \<Rightarrow> Inl e
             | Inr n \<Rightarrow> Inr (gtZero n))
          else Inr False)"

definition vestingRowsOf :: "projectData \<Rightarrow> jsval" where
  "vestingRowsOf pd = optProp (optProp (optProp (vestingAndUnlocking pd) ''tables'') ''vesting'') ''rows''"

definition unlockingRowsOf :: "projectData \<Rightarrow> jsval" where
  "unlockingRowsOf pd = optProp (optProp (optProp (vestingAndUnlocking pd) ''tables'') ''unlocking'') ''rows''"

definition poolRowsOf :: "projectData \<Rightarrow> jsval" where
  "poolRowsOf pd = optProp (optProp (optProp (pools pd) ''tables'') ''pools'') ''rows''"

definition stakingRowsOf :: "projectData \<Rightarrow> jsval" where
  "stakingRowsOf pd = optProp (optProp (optProp (projectServices pd) ''serviceTables'') ''staking'') ''rows''"

definition farmingRowsOf :: "projectData \<Rightarrow> jsval" where
  "farmingRowsOf pd = optProp (optProp (optProp (projectServices pd) ''serviceTables'') ''farming'') ''rows''"

definition determineActiveServices :: "projectData \<Rightarrow> error + string list" where
  "determineActiveServices pd =
     (let a0 = [];
          a1 = (if length (getRowsArray (vestingRowsOf pd)) > 0 then a0 @ [''vesting''] else a0);
          a2 = (if length (getRowsArray (unlockingRowsOf pd)) > 0 then a1 @ [''unlocking''] else a1)
      in case someE amountPositive (getRowsArray (poolRowsOf pd)) of
           Inl e \<Rightarrow> Inl e
         | Inr anyPool \<Rightarrow>
             let a3 = (if anyPool then a2 @ [''pools''] else a2);
                 a4 = (if length (getRowsArray (stakingRowsOf pd)) > 0 then a3 @ [''staking''] else a3);
                 a5 = (if length (getRowsArray (farmingRowsOf pd)) > 0 then a4 @ [''farming''] else a4)
             in Inr a5)"

subsection \<open>\<^verbatim>\<open>validateServiceData\<close>\<close>

text \<open>\<^verbatim>\<open>xs.map(f)\<close> and \<^verbatim>\<open>xs.filter(p)\<close> for callbacks that may throw.\<close>

fun mapE :: "('a \<Rightarrow> error + 'b) \<Rightarrow> 'a list \<Rightarrow> error + 'b list" where
  "mapE f [] = Inr []"
| "mapE f (x # xs) =
     (case f x of
        Inl e \<Rightarrow> Inl e
      | Inr y \<Rightarrow> (case mapE f xs of Inl e \<Rightarrow> Inl e | Inr ys \<Rightarrow> Inr (y # ys)))"

fun filterE :: "('a \<Rightarrow> error + bool) \<Rightarrow> 'a list \<Rightarrow> error + 'a list" where
  "filterE p [] = Inr []"
| "filterE p (x # xs) =
     (case p x of
        Inl e \<Rightarrow> Inl e
      | Inr b \<Rightarrow> (case filterE p xs of Inl e \<Rightarrow> Inl e | Inr ys \<Rightarrow> Inr (if b then x # ys else ys)))"

text \<open>
  \<^verbatim>\<open>xs.includes(v)\<close> compares with SameValueZero: primitives by value, while two objects
  or arrays parsed from different places of the document are never the same object.
\<close>

fun sameValueZero :: "jsval \<Rightarrow> jsval \<Rightarrow> bool" where
  "sameValueZero JUndefined JUndefined = True"
| "sameValueZero JNull JNull = True"
| "sameValueZero (JBool a) (JBool b) = (a = b)"
| "sameValueZero (JNum a) (JNum b) = (a = b)"
| "sameValueZero (JStr a) (JStr b) = (a = b)"
| "sameValueZero a b = False"

definition arrayIncludes :: "jsval list \<Rightarrow> jsval \<Rightarrow> bool" where
  "arrayIncludes xs v = list_ex (\<lambda>x. sameValueZero x v) xs"

text \<open>The callback of \<^verbatim>\<open>unlockingRows.filter\<close>: true for a row to be reported.\<close>

definition isInvalidRow :: "jsval list \<Rightarrow> jsval list \<Rightarrow> jsval \<Rightarrow> error + bool" where
  "isInvalidRow validAgents validInvestmentRounds row =
     (case getProp row ''agent_optionType'' of
        Inl e \<Rightarrow> Inl e
      | Inr ty \<Rightarrow>
          if ty = JStr (lit ''agent'') then
            (case getProp row ''agent_optionValue'' of
               Inl e \<Rightarrow> Inl e
             | Inr v \<Rightarrow> Inr (\<not> arrayIncludes validAgents v))
          else if ty = JStr (lit ''investmentRound'') then
            (case getProp row ''agent_optionValue'' of
               Inl e \<Rightarrow> Inl e
             | Inr v \<Rightarrow> Inr (\<not> arrayIncludes validInvestmentRounds v))
          else Inr True)"

text \<open>\<^verbatim>\<open>a.k1.k2.k3\<close>, each read throwing on \<^verbatim>\<open>undefined\<close> or \<^verbatim>\<open>null\<close>.\<close>

fun getPath :: "jsval \<Rightarrow> string list \<Rightarrow> error + jsval" where
  "getPath a [] = Inr a"
| "getPath a (k # ks) = (case getProp a k of Inl e \<Rightarrow> Inl e | Inr v \<Rightarrow> getPath v ks)"

definition validateUnlocking :: "projectData \<Rightarrow> error + unit" where
  "validateUnlocking pd =
     (case getProp (agents pd) ''rows'' of
        Inl e \<Rightarrow> Inl e
      | Inr ar \<Rightarrow>
     (case getProp (investmentRounds pd) ''rows'' of
        Inl e \<Rightarrow> Inl e
      | Inr ir \<Rightarrow>
          let agentRows = getRowsArray ar; investmentRoundRows = getRowsArray ir
          in if length agentRows = 0 \<and> length investmentRoundRows = 0
             then Inl (UnlockingDataError ''Unlocking requires agent or investment round data'')
             else
     (case mapE (\<lambda>row. getProp row ''agentName'') agentRows of
        Inl e \<Rightarrow> Inl e
      | Inr validAgents \<Rightarrow>
     (case mapE (\<lambda>row. getProp row ''source_name'') investmentRoundRows of
        Inl e \<Rightarrow> Inl e
      | Inr validInvestmentRounds \<Rightarrow>
     (case getPath (vestingAndUnlocking pd) [''tables'', ''unlocking'', ''rows''] of
        Inl e \<Rightarrow> Inl e
      | Inr ur \<Rightarrow>
     (case filterE (isInvalidRow validAgents validInvestmentRounds) (getRowsArray ur) of
        Inl e \<Rightarrow> Inl e
      | Inr invalidRows \<Rightarrow>
     (case mapE (\<lambda>row. getProp row ''agent_optionValue'') invalidRows of
        Inl e \<Rightarrow> Inl e
      | Inr invalidAgents \<Rightarrow>
          if length invalidAgents > 0 then
            (case arrayJoin (lit '', '') invalidAgents of
               Inl e \<Rightarrow> Inl e
             | Inr joined \<Rightarrow>
                 Inl (InvalidAgentReferenceError
                        (Chars (lit ''Invalid agents in unlocking data: '') # joined)))
          else Inr ())))))))"

definition validateVesting :: "projectData \<Rightarrow> error + unit" where
  "validateVesting pd =
     (if length (getRowsArray (poolRowsOf pd)) = 0
      then Inl (VestingDataError ''Vesting requires pool data'')
      else if length (getRowsArray (optProp (agents pd) ''rows'')) = 0
      then Inl (VestingDataError ''Vesting requires agent data'')
      else Inr ())"

definition validateServiceData :: "string list \<Rightarrow> projectData \<Rightarrow> error + unit" where
  "validateServiceData activeServices pd =
     (case (if ''vesting'' \<in> set activeServices then validateVesting pd else Inr ()) of
        Inl e \<Rightarrow> Inl e
      | Inr _ \<Rightarrow> if ''unlocking'' \<in> set activeServices then validateUnlocking pd else Inr ())"

subsection \<open>Template selection and rendering (\<^verbatim>\<open>main\<close>, \<^verbatim>\<open>generateContracts\<close>)\<close>

text \<open>
  The callback of \<^verbatim>\<open>ALL_TEMPLATES.filter\<close>. The active services are strings, so
  \<^verbatim>\<open>activeServices.includes(undefined)\<close> is false for a descriptor without \<^verbatim>\<open>service\<close>.
\<close>

definition templateWanted :: "string list \<Rightarrow> template \<Rightarrow> bool" where
  "templateWanted activeServices t =
     (if required t then True
      else
        (case service t of
           AnyService ss \<Rightarrow> list_ex (\<lambda>s. s \<in> set activeServices) ss
         | OneService s \<Rightarrow> s \<in> set activeServices
         | NoService \<Rightarrow> False))"

definition templatesToGenerate :: "string list \<Rightarrow> template list" where
  "templatesToGenerate activeServices = filter (templateWanted activeServices) ALL_TEMPLATES"

record templateContext = projectData +
  hasVesting :: bool
  hasUnlocking :: bool
  hasPools :: bool
  hasStaking :: bool
  hasFarming :: bool

definition buildContext :: "projectData \<Rightarrow> string list \<Rightarrow> templateContext" where
  "buildContext pd activeServices =
     \<lparr>initialData = initialData pd,
      vestingAndUnlocking = vestingAndUnlocking pd,
      pools = pools pd,
      agents = agents pd,
      investmentRounds = investmentRounds pd,
      projectServices = projectServices pd,
      hasVesting = (''vesting'' \<in> set activeServices),
      hasUnlocking = (''unlocking'' \<in> set activeServices),
      hasPools = (''pools'' \<in> set activeServices),
      hasStaking = (''staking'' \<in> set activeServices),
      hasFarming = (''farming'' \<in> set activeServices)\<rparr>"

text \<open>
  The template engine and the template directory are outside the repository: \<open>render\<close>
  compiles a template source and applies it to the context (or throws), and
  \<open>templateDir\<close> gives the source stored under a file name. The loop returns the error
  that stopped it, if any, and the files written so far as (name, text) pairs in the
  order of writing.
\<close>

type_synonym renderer = "string \<Rightarrow> templateContext \<Rightarrow> error + string"

fun writeContracts ::
  "renderer \<Rightarrow> (string \<Rightarrow> string option) \<Rightarrow> templateContext \<Rightarrow> template list
     \<Rightarrow> (string \<times> string) list \<Rightarrow> error option \<times> (string \<times> string) list" where
  "writeContracts render templateDir ctx [] files = (None, files)"
| "writeContracts render templateDir ctx (t # ts) files =
     (case templateDir (inputName t) of
        None \<Rightarrow> (Some (TemplateNotFoundError (inputName t)), files)
      | Some templateSource \<Rightarrow>
          (case render templateSource ctx of
             Inl e \<Rightarrow> (Some e, files)
           | Inr contractCode \<Rightarrow>
               writeContracts render templateDir ctx ts (files @ [(outputName t, contractCode)])))"

definition generateContracts ::
  "renderer \<Rightarrow> (string \<Rightarrow> string option) \<Rightarrow> template list \<Rightarrow> projectData \<Rightarrow> string list
     \<Rightarrow> error option \<times> (string \<times> string) list" where
  "generateContracts render templateDir ts pd activeServices =
     writeContracts render templateDir (buildContext pd activeServices) ts []"

text \<open>
  What a run leaves behind: the error it exited on (none on success), whether the output
  directory was created or found, and the files written.
\<close>

record outcome =
  exitError :: "error option"
  outputDir :: bool
  written :: "(string \<times> string) list"

definition failed :: "error \<Rightarrow> outcome" where
  "failed e = \<lparr>exitError = Some e, outputDir = False, written = []\<rparr>"

definition main :: "renderer \<Rightarrow> (string \<Rightarrow> string option) \<Rightarrow> jsstring + jsval \<Rightarrow> outcome" where
  "main render templateDir file =
     (case loadProjectData file of
        Inl e \<Rightarrow> failed e
      | Inr pd \<Rightarrow>
     (case determineActiveServices pd of
        Inl e \<Rightarrow> failed e
      | Inr activeServices \<Rightarrow>
     (case validateServiceData activeServices pd of
        Inl e \<Rightarrow> failed e
      | Inr _ \<Rightarrow>
          let ts = templatesToGenerate activeServices;
              r = generateContracts render templateDir ts pd activeServices
          in \<lparr>exitError = fst r, outputDir = True, written = snd r\<rparr>)))"

section \<open>The monolithic script\<close>

text \<open>
  The second source file runs the same steps at top level. Its constants \<^verbatim>\<open>data\<close>,
  \<^verbatim>\<open>vestingData\<close>, \<^verbatim>\<open>poolsData\<close>, \<^verbatim>\<open>agentsData\<close>, \<^verbatim>\<open>investmentRoundsData\<close> and
  \<^verbatim>\<open>projectServices\<close> are kept in a \<open>projectData\<close> record, under the names the script
  gives them in the template context. An exception outside the final \<^verbatim>\<open>try\<close> is
  uncaught and ends the process. The script reads \<^verbatim>\<open>test1.json\<close> and writes to
  \<^verbatim>\<open>Generated_contracts\<close>, where the pipeline uses \<^verbatim>\<open>tokenomicsData.json\<close> and
  \<^verbatim>\<open>generated_contracts\<close>; the paths are not part of the model. It creates the output
  directory right after the check of the required fields.
\<close>

definition mono_loadFailureMessage :: "jsstring \<Rightarrow> jsstring" where
  "mono_loadFailureMessage message = lit ''Failed to read or parse JSON: '' @ message"

definition mono_missingFieldsMessage :: string where
  "mono_missingFieldsMessage =
     ''Missing required fields in JSON: tokenName and totalTokensAmount are required''"

definition mono_sections :: "jsstring + jsval \<Rightarrow> error + projectData" where
  "mono_sections file =
     (case file of
        Inl message \<Rightarrow> Inl (ConfigLoadError (mono_loadFailureMessage message))
      | Inr jsonData \<Rightarrow>
          (case getProp jsonData ''initialData'' of
             Inl e \<Rightarrow> Inl e
           | Inr _ \<Rightarrow>
               Inr \<lparr>initialData = js_or (optProp jsonData ''initialData'') (JObj []),
                    vestingAndUnlocking =
                      js_or (optProp jsonData ''vestingAndUnlocking'') defaultVestingAndUnlocking,
                    pools = js_or (optProp jsonData ''pools'') defaultPools,
                    agents = js_or (optProp jsonData ''agents'') emptyRows,
                    investmentRounds = js_or (optProp jsonData ''investmentRounds'') emptyRows,
                    projectServices =
                      js_or (optProp jsonData ''projectServices'') defaultProjectServices\<rparr>))"

definition mono_requiredFields :: "projectData \<Rightarrow> error + unit" where
  "mono_requiredFields pd =
     (if \<not> truthy (optProp (initialData pd) ''tokenName'')
         \<or> \<not> truthy (optProp (initialData pd) ''totalTokensAmount'')
      then Inl (MissingRequiredFieldError mono_missingFieldsMessage)
      else Inr ())"

text \<open>\<^verbatim>\<open>getRowsArray(d.t.k && d.t.k.rows)\<close>.\<close>

definition mono_rowsAt :: "jsval \<Rightarrow> string \<Rightarrow> string \<Rightarrow> error + jsval list" where
  "mono_rowsAt d t k =
     (case getPath d [t, k] of
        Inl e \<Rightarrow> Inl e
      | Inr v \<Rightarrow>
          if truthy v then
            (case getPath d [t, k, ''rows''] of
               Inl e \<Rightarrow> Inl e
             | Inr rows \<Rightarrow> Inr (getRowsArray rows))
          else Inr (getRowsArray v))"

record monoRows =
  vestingRows :: "jsval list"
  unlockingRows :: "jsval list"
  poolRows :: "jsval list"
  stakingRows :: "jsval list"
  farmingRows :: "jsval list"

definition mono_rows :: "projectData \<Rightarrow> error + monoRows" where
  "mono_rows pd =
     (case mono_rowsAt (vestingAndUnlocking pd) ''tables'' ''vesting'' of
        Inl e \<Rightarrow> Inl e
      | Inr vr \<Rightarrow>
     (case mono_rowsAt (vestingAndUnlocking pd) ''tables'' ''unlocking'' of
        Inl e \<Rightarrow> Inl e
      | Inr ur \<Rightarrow>
     (case mono_rowsAt (pools pd) ''tables'' ''pools'' of
        Inl e \<Rightarrow> Inl e
      | Inr pr \<Rightarrow>
     (case mono_rowsAt (projectServices pd) ''serviceTables'' ''staking'' of
        Inl e \<Rightarrow> Inl e
      | Inr sr \<Rightarrow>
     (case mono_rowsAt (projectServices pd) ''serviceTables'' ''farming'' of
        Inl e \<Rightarrow> Inl e
      | Inr fr \<Rightarrow>
          Inr \<lparr>vestingRows = vr, unlockingRows = ur, poolRows = pr, stakingRows = sr,
               farmingRows = fr\<rparr>)))))"

definition mono_activeServices :: "monoRows \<Rightarrow> error + string list" where
  "mono_activeServices rs =
     (let a0 = [];
          a1 = (if length (vestingRows rs) > 0 then a0 @ [''vesting''] else a0);
          a2 = (if length (unlockingRows rs) > 0 then a1 @ [''unlocking''] else a1)
      in case someE amountPositive (poolRows rs) of
           Inl e \<Rightarrow> Inl e
         | Inr anyPool \<Rightarrow>
             let a3 = (if anyPool then a2 @ [''pools''] else a2);
                 a4 = (if length (stakingRows rs) > 0 then a3 @ [''staking''] else a3);
                 a5 = (if length (farmingRows rs) > 0 then a4 @ [''farming''] else a4)
             in Inr a5)"

definition mono_validateUnlocking :: "monoRows \<Rightarrow> projectData \<Rightarrow> error + unit" where
  "mono_validateUnlocking rs pd =
     (case getProp (agents pd) ''rows'' of
        Inl e \<Rightarrow> Inl e
      | Inr ar \<Rightarrow>
     (case getProp (investmentRounds pd) ''rows'' of
        Inl e \<Rightarrow> Inl e
      | Inr ir \<Rightarrow>
          let agentRows = getRowsArray ar; investmentRoundRows = getRowsArray ir
          in if length agentRows = 0 \<and> length investmentRoundRows = 0
             then Inl (UnlockingDataError ''Unlocking requires agent or investment round data'')
             else
     (case mapE (\<lambda>row. getProp row ''agentName'') agentRows of
        Inl e \<Rightarrow> Inl e
      | Inr validAgents \<Rightarrow>
     (case mapE (\<lambda>row. getProp row ''source_name'') investmentRoundRows of
        Inl e \<Rightarrow> Inl e
      | Inr validInvestmentRounds \<Rightarrow>
     (case filterE (isInvalidRow validAgents validInvestmentRounds) (unlockingRows rs) of
        Inl e \<Rightarrow> Inl e
      | Inr invalidRows \<Rightarrow>
     (case mapE (\<lambda>row. getProp row ''agent_optionValue'') invalidRows of
        Inl e \<Rightarrow> Inl e
      | Inr invalidAgents \<Rightarrow>
          if length invalidAgents \<noteq> 0 then
            (case arrayJoin (lit '', '') invalidAgents of
               Inl e \<Rightarrow> Inl e
             | Inr joined \<Rightarrow>
                 Inl (InvalidAgentReferenceError
                        (Chars (lit ''Invalid agents in unlocking data: '') # joined)))
          else Inr ()))))))"

definition mono_validateVesting :: "monoRows \<Rightarrow> projectData \<Rightarrow> error + unit" where
  "mono_validateVesting rs pd =
     (if length (poolRows rs) = 0
      then Inl (VestingDataError ''Vesting requires pool data'')
      else
        (case getProp (agents pd) ''rows'' of
           Inl e \<Rightarrow> Inl e
         | Inr ar \<Rightarrow>
             if length (getRowsArray ar) = 0
             then Inl (VestingDataError ''Vesting requires agent data'')
             else Inr ()))"

definition mono_validate :: "string list \<Rightarrow> monoRows \<Rightarrow> projectData \<Rightarrow> error + unit" where
  "mono_validate activeServices rs pd =
     (case (if ''vesting'' \<in> set activeServices then mono_validateVesting rs pd else Inr ()) of
        Inl e \<Rightarrow> Inl e
      | Inr _ \<Rightarrow>
          if ''unlocking'' \<in> set activeServices then mono_validateUnlocking rs pd else Inr ())"

text \<open>The filter callback of the script: a descriptor whose \<^verbatim>\<open>service\<close> is falsy is dropped.\<close>

definition mono_templateWanted :: "string list \<Rightarrow> template \<Rightarrow> bool" where
  "mono_templateWanted activeServices t =
     (if required t then True
      else
        (case service t of
           NoService \<Rightarrow> False
         | AnyService ss \<Rightarrow> list_ex (\<lambda>s. s \<in> set activeServices) ss
         | OneService s \<Rightarrow> if s = [] then False else s \<in> set activeServices))"

definition mono_templatesToGenerate :: "string list \<Rightarrow> template list" where
  "mono_templatesToGenerate activeServices = filter (mono_templateWanted activeServices) ALL_TEMPLATES"

definition mono_main :: "renderer \<Rightarrow> (string \<Rightarrow> string option) \<Rightarrow> jsstring + jsval \<Rightarrow> outcome" where
  "mono_main render templateDir file =
     (case mono_sections file of
        Inl e \<Rightarrow> failed e
      | Inr pd \<Rightarrow>
     (case mono_requiredFields pd of
        Inl e \<Rightarrow> failed e
      | Inr _ \<Rightarrow>
     (case mono_rows pd of
        Inl e \<Rightarrow> (failed e)\<lparr>outputDir := True\<rparr>
      | Inr rs \<Rightarrow>
     (case mono_activeServices rs of
        Inl e \<Rightarrow> (failed e)\<lparr>outputDir := True\<rparr>
      | Inr activeServices \<Rightarrow>
     (case mono_validate activeServices rs pd of
        Inl e \<Rightarrow> (failed e)\<lparr>outputDir := True\<rparr>
      | Inr _ \<Rightarrow>
          let ts = mono_templatesToGenerate activeServices;
              r = writeContracts render templateDir (buildContext pd activeServices) ts []
          in \<lparr>exitError = fst r, outputDir = True, written = snd r\<rparr>)))))"

section \<open>Notions of the specification and sample inputs\<close>

text \<open>The names a descriptor's \<^verbatim>\<open>service\<close> field lists: none, the single name, or those of the array.\<close>

definition servicesOf :: "template \<Rightarrow> string list" where
  "servicesOf t = (case service t of NoService \<Rightarrow> [] | OneService s \<Rightarrow> [s] | AnyService ss \<Rightarrow> ss)"

text \<open>A template engine that returns the template source, and a directory holding every template.\<close>

definition echoRender :: renderer where
  "echoRender templateSource ctx = Inr templateSource"

definition fullTemplateDir :: "string \<Rightarrow> string option" where
  "fullTemplateDir name = Some name"

text \<open>A document with one unlocking row that names an existing agent.\<close>

definition unlockingDoc :: jsval where
  "unlockingDoc = JObj
     [(''initialData'', JObj [(''tokenName'', JStr (lit ''T'')), (''totalTokensAmount'', JNum (Fin 1000))]),
      (''vestingAndUnlocking'', JObj [(''tables'', JObj [(''unlocking'', JObj [(''rows'',
         JObj [(''r1'', JObj [(''agent_optionType'', JStr (lit ''agent'')),
                              (''agent_optionValue'', JStr (lit ''Alice''))])])])])]),
      (''agents'', JObj [(''rows'', JObj [(''a1'', JObj [(''agentName'', JStr (lit ''Alice''))])])])]"

definition unlockingConfig :: projectData where
  "unlockingConfig =
     \<lparr>initialData = JObj [(''tokenName'', JStr (lit ''T'')), (''totalTokensAmount'', JNum (Fin 1000))],
      vestingAndUnlocking = JObj [(''tables'', JObj [(''unlocking'', JObj [(''rows'',
         JObj [(''r1'', JObj [(''agent_optionType'', JStr (lit ''agent'')),
                              (''agent_optionValue'', JStr (lit ''Alice''))])])])])],
      pools = defaultPools,
      agents = JObj [(''rows'', JObj [(''a1'', JObj [(''agentName'', JStr (lit ''Alice''))])])],
      investmentRounds = emptyRows,
      projectServices = defaultProjectServices\<rparr>"

text \<open>
  \<^verbatim>\<open>initialData.k\<close> of the configuration loaded from a document, and the values
  JavaScript treats as false.
\<close>

definition requiredField :: "jsval \<Rightarrow> string \<Rightarrow> jsval" where
  "requiredField jsonData k = optProp (js_or (optProp jsonData ''initialData'') (JObj [])) k"

definition falsyValues :: "jsval set" where
  "falsyValues = {JUndefined, JNull, JBool False, JNum (Fin 0), JNum NaN, JStr []}"

text \<open>A document without \<^verbatim>\<open>tokenName\<close>, and one whose unlocking row names an unknown agent.\<close>

definition missingNameDoc :: jsval where
  "missingNameDoc = JObj [(''initialData'', JObj [(''totalTokensAmount'', JNum (Fin 1000))])]"

definition danglingAgentDoc :: jsval where
  "danglingAgentDoc = JObj
     [(''initialData'', JObj [(''tokenName'', JStr (lit ''T'')), (''totalTokensAmount'', JNum (Fin 1000))]),
      (''vestingAndUnlocking'', JObj [(''tables'', JObj [(''unlocking'', JObj [(''rows'',
         JObj [(''r1'', JObj [(''agent_optionType'', JStr (lit ''agent'')),
                              (''agent_optionValue'', JStr (lit ''Bob''))])])])])]),
      (''agents'', JObj [(''rows'', JObj [(''a1'', JObj [(''agentName'', JStr (lit ''Alice''))])])])]"

definition danglingAgentConfig :: projectData where
  "danglingAgentConfig =
     \<lparr>initialData = JObj [(''tokenName'', JStr (lit ''T'')), (''totalTokensAmount'', JNum (Fin 1000))],
      vestingAndUnlocking = JObj [(''tables'', JObj [(''unlocking'', JObj [(''rows'',
         JObj [(''r1'', JObj [(''agent_optionType'', JStr (lit ''agent'')),
                              (''agent_optionValue'', JStr (lit ''Bob''))])])])])],
      pools = defaultPools,
      agents = JObj [(''rows'', JObj [(''a1'', JObj [(''agentName'', JStr (lit ''Alice''))])])],
      investmentRounds = emptyRows,
      projectServices = defaultProjectServices\<rparr>"

text \<open>
  A value has no text and no number when it is an object with an own property
  \<^verbatim>\<open>toString\<close>, or an array that holds such a value at any depth.
\<close>

fun unprintable :: "jsval \<Rightarrow> bool" where
  "unprintable (JObj kvs) = (map_of kvs ''toString'' \<noteq> None)"
| "unprintable (JArr xs) = list_ex unprintable xs"
| "unprintable v = False"

text \<open>
  A pool row counts for the activation of \<^verbatim>\<open>pools\<close> when its \<^verbatim>\<open>amount\<close> is truthy and
  converts to a number greater than zero. A pool row cannot be examined when it is
  \<^verbatim>\<open>null\<close>, or when its amount is truthy and has no number.
\<close>

definition rowQualifies :: "jsval \<Rightarrow> bool" where
  "rowQualifies row =
     (truthy (optProp row ''amount'')
      \<and> (case toNumber (optProp row ''amount'') of Inl e \<Rightarrow> False | Inr n \<Rightarrow> gtZero n))"

definition rowRaises :: "jsval \<Rightarrow> bool" where
  "rowRaises row =
     (row = JNull \<or> row = JUndefined
      \<or> (truthy (optProp row ''amount'') \<and> unprintable (optProp row ''amount'')))"

definition isNullish :: "jsval \<Rightarrow> bool" where
  "isNullish v = (v = JNull \<or> v = JUndefined)"

text \<open>The row collections the validator looks at.\<close>

definition agentRowsOf :: "projectData \<Rightarrow> jsval list" where
  "agentRowsOf pd = getRowsArray (optProp (agents pd) ''rows'')"

definition investmentRoundRowsOf :: "projectData \<Rightarrow> jsval list" where
  "investmentRoundRowsOf pd = getRowsArray (optProp (investmentRounds pd) ''rows'')"

text \<open>A document whose first pool row is \<^verbatim>\<open>null\<close> and whose second has the amount \<^verbatim>\<open>"3"\<close>.\<close>

definition nullPoolRowDoc :: jsval where
  "nullPoolRowDoc = JObj
     [(''initialData'', JObj [(''tokenName'', JStr (lit ''T'')), (''totalTokensAmount'', JNum (Fin 1000))]),
      (''pools'', JObj [(''tables'', JObj [(''pools'', JObj [(''rows'',
         JObj [(''p1'', JNull), (''p2'', JObj [(''amount'', JStr (lit ''3''))])])])])])]"

definition nullPoolRowConfig :: projectData where
  "nullPoolRowConfig =
     \<lparr>initialData = JObj [(''tokenName'', JStr (lit ''T'')), (''totalTokensAmount'', JNum (Fin 1000))],
      vestingAndUnlocking = defaultVestingAndUnlocking,
      pools = JObj [(''tables'', JObj [(''pools'', JObj [(''rows'',
         JObj [(''p1'', JNull), (''p2'', JObj [(''amount'', JStr (lit ''3''))])])])])],
      agents = emptyRows,
      investmentRounds = emptyRows,
      projectServices = defaultProjectServices\<rparr>"

text \<open>
  Pool rows whose first amount is the object \<^verbatim>\<open>{"toString": 0}\<close>, and pool rows in which
  a \<^verbatim>\<open>null\<close> row and such a row come after a row with the amount \<^verbatim>\<open>"3"\<close>.
\<close>

definition objectAmountRows :: jsval where
  "objectAmountRows = JObj
     [(''p1'', JObj [(''amount'', JObj [(''toString'', JNum (Fin 0))])]),
      (''p2'', JObj [(''amount'', JStr (lit ''3''))])]"

definition lateTroubleRows :: jsval where
  "lateTroubleRows = JObj
     [(''p1'', JObj [(''amount'', JStr (lit ''3''))]),
      (''p2'', JNull),
      (''p3'', JObj [(''amount'', JObj [(''toString'', JNum (Fin 0))])])]"

text \<open>Pool rows with the amounts \<^verbatim>\<open>"0"\<close>, \<^verbatim>\<open>-5\<close>, \<^verbatim>\<open>"abc"\<close> and none, with and without a row of amount \<^verbatim>\<open>"3"\<close>.\<close>

definition idlePoolRows :: jsval where
  "idlePoolRows = JObj
     [(''p1'', JObj [(''amount'', JStr (lit ''0''))]),
      (''p2'', JObj [(''amount'', JNum (Fin (- 5)))]),
      (''p3'', JObj [(''amount'', JStr (lit ''abc''))]),
      (''p4'', JObj [(''name'', JStr (lit ''team''))])]"

definition busyPoolRows :: jsval where
  "busyPoolRows = JObj
     [(''p1'', JObj [(''amount'', JStr (lit ''0''))]),
      (''p2'', JObj [(''amount'', JNum (Fin (- 5)))]),
      (''p3'', JObj [(''amount'', JStr (lit ''3''))])]"

definition poolsConfig :: "jsval \<Rightarrow> projectData" where
  "poolsConfig rows =
     \<lparr>initialData = JObj [(''tokenName'', JStr (lit ''T'')), (''totalTokensAmount'', JNum (Fin 1000))],
      vestingAndUnlocking = defaultVestingAndUnlocking,
      pools = JObj [(''tables'', JObj [(''pools'', JObj [(''rows'', rows)])])],
      agents = emptyRows,
      investmentRounds = emptyRows,
      projectServices = defaultProjectServices\<rparr>"

text \<open>
  A document with a vesting row, an agent and pool rows none of which has a positive
  amount; the same configuration without any pool row, and without agents.
\<close>

definition zeroPoolRows :: jsval where
  "zeroPoolRows = JObj
     [(''p1'', JObj [(''amount'', JNum (Fin 0))]),
      (''p2'', JObj [(''amount'', JNum (Fin (- 5)))]),
      (''p3'', JObj [(''name'', JStr (lit ''team''))])]"

definition vestingDoc :: jsval where
  "vestingDoc = JObj
     [(''initialData'', JObj [(''tokenName'', JStr (lit ''T'')), (''totalTokensAmount'', JNum (Fin 1000))]),
      (''vestingAndUnlocking'', JObj [(''tables'', JObj [(''vesting'', JObj [(''rows'',
         JObj [(''v1'', JObj [(''agent'', JStr (lit ''Alice''))])])])])]),
      (''pools'', JObj [(''tables'', JObj [(''pools'', JObj [(''rows'', zeroPoolRows)])])]),
      (''agents'', JObj [(''rows'', JObj [(''a1'', JObj [(''agentName'', JStr (lit ''Alice''))])])])]"

definition vestingConfig :: projectData where
  "vestingConfig =
     \<lparr>initialData = JObj [(''tokenName'', JStr (lit ''T'')), (''totalTokensAmount'', JNum (Fin 1000))],
      vestingAndUnlocking = JObj [(''tables'', JObj [(''vesting'', JObj [(''rows'',
         JObj [(''v1'', JObj [(''agent'', JStr (lit ''Alice''))])])])])],
      pools = JObj [(''tables'', JObj [(''pools'', JObj [(''rows'', zeroPoolRows)])])],
      agents = JObj [(''rows'', JObj [(''a1'', JObj [(''agentName'', JStr (lit ''Alice''))])])],
      investmentRounds = emptyRows,
      projectServices = defaultProjectServices\<rparr>"

definition vestingOnlyConfig :: projectData where
  "vestingOnlyConfig =
     \<lparr>initialData = JObj [(''tokenName'', JStr (lit ''T'')), (''totalTokensAmount'', JNum (Fin 1000))],
      vestingAndUnlocking = JObj [(''tables'', JObj [(''vesting'', JObj [(''rows'',
         JObj [(''v1'', JObj [(''agent'', JStr (lit ''Alice''))])])])])],
      pools = defaultPools,
      agents = emptyRows,
      investmentRounds = emptyRows,
      projectServices = defaultProjectServices\<rparr>"

definition vestingNoAgentsConfig :: projectData where
  "vestingNoAgentsConfig =
     \<lparr>initialData = JObj [(''tokenName'', JStr (lit ''T'')), (''totalTokensAmount'', JNum (Fin 1000))],
      vestingAndUnlocking = JObj [(''tables'', JObj [(''vesting'', JObj [(''rows'',
         JObj [(''v1'', JObj [(''agent'', JStr (lit ''Alice''))])])])])],
      pools = JObj [(''tables'', JObj [(''pools'', JObj [(''rows'', zeroPoolRows)])])],
      agents = emptyRows,
      investmentRounds = emptyRows,
      projectServices = defaultProjectServices\<rparr>"

text \<open>
  A document whose \<^verbatim>\<open>pools\<close> section is present but empty, and one whose \<^verbatim>\<open>pools\<close>,
  \<^verbatim>\<open>agents\<close> and \<^verbatim>\<open>investmentRounds\<close> sections are present with the values \<^verbatim>\<open>null\<close>,
  \<^verbatim>\<open>0\<close> and \<^verbatim>\<open>""\<close>.
\<close>

definition partialPoolsDoc :: jsval where
  "partialPoolsDoc = JObj
     [(''initialData'', JObj [(''tokenName'', JStr (lit ''T'')), (''totalTokensAmount'', JNum (Fin 1000))]),
      (''pools'', JObj [])]"

definition partialPoolsConfig :: projectData where
  "partialPoolsConfig =
     \<lparr>initialData = JObj [(''tokenName'', JStr (lit ''T'')), (''totalTokensAmount'', JNum (Fin 1000))],
      vestingAndUnlocking = defaultVestingAndUnlocking,
      pools = JObj [],
      agents = emptyRows,
      investmentRounds = emptyRows,
      projectServices = defaultProjectServices\<rparr>"

definition falsySectionsDoc :: jsval where
  "falsySectionsDoc = JObj
     [(''initialData'', JObj [(''tokenName'', JStr (lit ''T'')), (''totalTokensAmount'', JNum (Fin 1000))]),
      (''pools'', JNull),
      (''agents'', JNum (Fin 0)),
      (''investmentRounds'', JStr [])]"

definition falsySectionsConfig :: projectData where
  "falsySectionsConfig =
     \<lparr>initialData = JObj [(''tokenName'', JStr (lit ''T'')), (''totalTokensAmount'', JNum (Fin 1000))],
      vestingAndUnlocking = defaultVestingAndUnlocking,
      pools = defaultPools,
      agents = emptyRows,
      investmentRounds = emptyRows,
      projectServices = defaultProjectServices\<rparr>"

text \<open>
  What each variant has computed when rendering starts: the active services, the selected
  templates and the template context, or the error that stopped it before.
\<close>

definition stagedPlan :: "jsstring + jsval \<Rightarrow> error + string list \<times> template list \<times> templateContext" where
  "stagedPlan file =
     (case loadProjectData file of
        Inl e \<Rightarrow> Inl e
      | Inr pd \<Rightarrow>
     (case determineActiveServices pd of
        Inl e \<Rightarrow> Inl e
      | Inr activeServices \<Rightarrow>
     (case validateServiceData activeServices pd of
        Inl e \<Rightarrow> Inl e
      | Inr _ \<Rightarrow>
          Inr (activeServices, templatesToGenerate activeServices, buildContext pd activeServices))))"

definition mono_plan :: "jsstring + jsval \<Rightarrow> error + string list \<times> template list \<times> templateContext" where
  "mono_plan file =
     (case mono_sections file of
        Inl e \<Rightarrow> Inl e
      | Inr pd \<Rightarrow>
     (case mono_requiredFields pd of
        Inl e \<Rightarrow> Inl e
      | Inr _ \<Rightarrow>
     (case mono_rows pd of
        Inl e \<Rightarrow> Inl e
      | Inr rs \<Rightarrow>
     (case mono_activeServices rs of
        Inl e \<Rightarrow> Inl e
      | Inr activeServices \<Rightarrow>
     (case mono_validate activeServices rs pd of
        Inl e \<Rightarrow> Inl e
      | Inr _ \<Rightarrow>
          Inr (activeServices, mono_templatesToGenerate activeServices,
               buildContext pd activeServices))))))"

text \<open>The run of either variant from its plan: render and write the selected templates.\<close>

definition runPlan ::
  "renderer \<Rightarrow> (string \<Rightarrow> string option)
     \<Rightarrow> error + string list \<times> template list \<times> templateContext
     \<Rightarrow> error option \<times> (string \<times> string) list" where
  "runPlan render templateDir plan =
     (case plan of
        Inl e \<Rightarrow> (Some e, [])
      | Inr (activeServices, ts, ctx) \<Rightarrow> writeContracts render templateDir ctx ts [])"

text \<open>The section stored for a top-level key: the value read, or the placeholder when it is falsy.\<close>

definition sectionOrDefault :: "jsval \<Rightarrow> string \<Rightarrow> jsval \<Rightarrow> jsval" where
  "sectionOrDefault jsonData name placeholder =
     (if optProp jsonData name \<in> falsyValues then placeholder else optProp jsonData name)"

text \<open>
  Resolution of an unlocking row as the specification words it: a row of type
  \<^verbatim>\<open>agent\<close> must name some agent's \<^verbatim>\<open>agentName\<close>, a row of type \<^verbatim>\<open>investmentRound\<close>
  some investment round's \<^verbatim>\<open>source_name\<close>, and any other type never resolves. The values
  reported are those of the rows that fail, in row order.
\<close>

definition rowResolves :: "jsval list \<Rightarrow> jsval list \<Rightarrow> jsval \<Rightarrow> bool" where
  "rowResolves agentRows investmentRoundRows row =
     ((optProp row ''agent_optionType'' = JStr (lit ''agent'')
        \<and> list_ex (\<lambda>a. sameValueZero (optProp a ''agentName'') (optProp row ''agent_optionValue''))
             agentRows)
      \<or> (optProp row ''agent_optionType'' = JStr (lit ''investmentRound'')
        \<and> list_ex (\<lambda>r. sameValueZero (optProp r ''source_name'') (optProp row ''agent_optionValue''))
             investmentRoundRows))"

definition unresolvedValues :: "projectData \<Rightarrow> jsval list" where
  "unresolvedValues pd =
     map (\<lambda>row. optProp row ''agent_optionValue'')
       (filter (\<lambda>row. \<not> rowResolves (agentRowsOf pd) (investmentRoundRowsOf pd) row)
          (getRowsArray (unlockingRowsOf pd)))"

text \<open>
  A document with four unlocking rows, of which the first, third and fourth do not
  resolve, and one with vesting and unlocking rows and pool rows but neither agents nor
  investment rounds.
\<close>

definition mixedUnlockingDoc :: jsval where
  "mixedUnlockingDoc = JObj
     [(''initialData'', JObj [(''tokenName'', JStr (lit ''T'')), (''totalTokensAmount'', JNum (Fin 1000))]),
      (''vestingAndUnlocking'', JObj [(''tables'', JObj [(''unlocking'', JObj [(''rows'', JObj
         [(''r1'', JObj [(''agent_optionType'', JStr (lit ''agent'')), (''agent_optionValue'', JStr (lit ''Bob''))]),
          (''r2'', JObj [(''agent_optionType'', JStr (lit ''investmentRound'')),
                         (''agent_optionValue'', JStr (lit ''Seed''))]),
          (''r3'', JObj [(''agent_optionType'', JStr (lit ''team'')), (''agent_optionValue'', JStr (lit ''Alice''))]),
          (''r4'', JObj [(''agent_optionType'', JStr (lit ''agent'')), (''agent_optionValue'', JStr (lit ''Bob''))]),
          (''r5'', JObj [(''agent_optionType'', JStr (lit ''agent'')),
                         (''agent_optionValue'', JStr (lit ''Alice''))])])])])]),
      (''agents'', JObj [(''rows'', JObj [(''a1'', JObj [(''agentName'', JStr (lit ''Alice''))])])]),
      (''investmentRounds'', JObj [(''rows'', JObj [(''i1'', JObj [(''source_name'', JStr (lit ''Seed''))])])])]"

definition mixedUnlockingConfig :: projectData where
  "mixedUnlockingConfig =
     \<lparr>initialData = JObj [(''tokenName'', JStr (lit ''T'')), (''totalTokensAmount'', JNum (Fin 1000))],
      vestingAndUnlocking = JObj [(''tables'', JObj [(''unlocking'', JObj [(''rows'', JObj
         [(''r1'', JObj [(''agent_optionType'', JStr (lit ''agent'')), (''agent_optionValue'', JStr (lit ''Bob''))]),
          (''r2'', JObj [(''agent_optionType'', JStr (lit ''investmentRound'')),
                         (''agent_optionValue'', JStr (lit ''Seed''))]),
          (''r3'', JObj [(''agent_optionType'', JStr (lit ''team'')), (''agent_optionValue'', JStr (lit ''Alice''))]),
          (''r4'', JObj [(''agent_optionType'', JStr (lit ''agent'')), (''agent_optionValue'', JStr (lit ''Bob''))]),
          (''r5'', JObj [(''agent_optionType'', JStr (lit ''agent'')),
                         (''agent_optionValue'', JStr (lit ''Alice''))])])])])],
      pools = defaultPools,
      agents = JObj [(''rows'', JObj [(''a1'', JObj [(''agentName'', JStr (lit ''Alice''))])])],
      investmentRounds = JObj [(''rows'', JObj [(''i1'', JObj [(''source_name'', JStr (lit ''Seed''))])])],
      projectServices = defaultProjectServices\<rparr>"

definition vestingUnlockingDoc :: jsval where
  "vestingUnlockingDoc = JObj
     [(''initialData'', JObj [(''tokenName'', JStr (lit ''T'')), (''totalTokensAmount'', JNum (Fin 1000))]),
      (''vestingAndUnlocking'', JObj [(''tables'', JObj
         [(''vesting'', JObj [(''rows'', JObj [(''v1'', JObj [(''agent'', JStr (lit ''Alice''))])])]),
          (''unlocking'', JObj [(''rows'', JObj
             [(''r1'', JObj [(''agent_optionType'', JStr (lit ''agent'')),
                             (''agent_optionValue'', JStr (lit ''Alice''))])])])])]),
      (''pools'', JObj [(''tables'', JObj [(''pools'', JObj [(''rows'', zeroPoolRows)])])])]"

definition vestingUnlockingConfig :: projectData where
  "vestingUnlockingConfig =
     \<lparr>initialData = JObj [(''tokenName'', JStr (lit ''T'')), (''totalTokensAmount'', JNum (Fin 1000))],
      vestingAndUnlocking = JObj [(''tables'', JObj
         [(''vesting'', JObj [(''rows'', JObj [(''v1'', JObj [(''agent'', JStr (lit ''Alice''))])])]),
          (''unlocking'', JObj [(''rows'', JObj
             [(''r1'', JObj [(''agent_optionType'', JStr (lit ''agent'')),
                             (''agent_optionValue'', JStr (lit ''Alice''))])])])])],
      pools = JObj [(''tables'', JObj [(''pools'', JObj [(''rows'', zeroPoolRows)])])],
      agents = emptyRows,
      investmentRounds = emptyRows,
      projectServices = defaultProjectServices\<rparr>"

text \<open>
  A document with an unlocking row that names the agent Alice, where the agents are
  a \<^verbatim>\<open>null\<close> row and Alice; and one whose unlocking row names no agent but the object
  \<^verbatim>\<open>{"toString": 0}\<close>.
\<close>

definition nullAgentRowDoc :: jsval where
  "nullAgentRowDoc = JObj
     [(''initialData'', JObj [(''tokenName'', JStr (lit ''T'')), (''totalTokensAmount'', JNum (Fin 1000))]),
      (''vestingAndUnlocking'', JObj [(''tables'', JObj [(''unlocking'', JObj [(''rows'',
         JObj [(''r1'', JObj [(''agent_optionType'', JStr (lit ''agent'')),
                              (''agent_optionValue'', JStr (lit ''Alice''))])])])])]),
      (''agents'', JObj [(''rows'', JObj [(''a0'', JNull),
                                          (''a1'', JObj [(''agentName'', JStr (lit ''Alice''))])])])]"

definition objectValueDoc :: jsval where
  "objectValueDoc = JObj
     [(''initialData'', JObj [(''tokenName'', JStr (lit ''T'')), (''totalTokensAmount'', JNum (Fin 1000))]),
      (''vestingAndUnlocking'', JObj [(''tables'', JObj [(''unlocking'', JObj [(''rows'',
         JObj [(''r1'', JObj [(''agent_optionType'', JStr (lit ''agent'')),
                              (''agent_optionValue'', JObj [(''toString'', JNum (Fin 0))])])])])])]),
      (''agents'', JObj [(''rows'', JObj [(''a1'', JObj [(''agentName'', JStr (lit ''Alice''))])])])]"

definition nullAgentRowConfig :: projectData where
  "nullAgentRowConfig =
     \<lparr>initialData = JObj [(''tokenName'', JStr (lit ''T'')), (''totalTokensAmount'', JNum (Fin 1000))],
      vestingAndUnlocking = JObj [(''tables'', JObj [(''unlocking'', JObj [(''rows'',
         JObj [(''r1'', JObj [(''agent_optionType'', JStr (lit ''agent'')),
                              (''agent_optionValue'', JStr (lit ''Alice''))])])])])],
      pools = defaultPools,
      agents = JObj [(''rows'', JObj [(''a0'', JNull),
                                      (''a1'', JObj [(''agentName'', JStr (lit ''Alice''))])])],
      investmentRounds = emptyRows,
      projectServices = defaultProjectServices\<rparr>"

definition objectValueConfig :: projectData where
  "objectValueConfig =
     \<lparr>initialData = JObj [(''tokenName'', JStr (lit ''T'')), (''totalTokensAmount'', JNum (Fin 1000))],
      vestingAndUnlocking = JObj [(''tables'', JObj [(''unlocking'', JObj [(''rows'',
         JObj [(''r1'', JObj [(''agent_optionType'', JStr (lit ''agent'')),
                              (''agent_optionValue'', JObj [(''toString'', JNum (Fin 0))])])])])])],
      pools = defaultPools,
      agents = JObj [(''rows'', JObj [(''a1'', JObj [(''agentName'', JStr (lit ''Alice''))])])],
      investmentRounds = emptyRows,
      projectServices = defaultProjectServices\<rparr>"

text \<open>
  The error of the staged pipeline for an error of the monolithic script: the same,
  but for the wording of the two messages of the loader.
\<close>

fun stagedWording :: "error \<Rightarrow> error" where
  "stagedWording (ConfigLoadError m) =
     ConfigLoadError (loadFailureMessage (drop (length (mono_loadFailureMessage [])) m))"
| "stagedWording (MissingRequiredFieldError m) = MissingRequiredFieldError missingFieldsMessage"
| "stagedWording e = e"

text \<open>
  A document is shaped when in the configuration loaded from it the sections
  \<^verbatim>\<open>vestingAndUnlocking\<close> and \<^verbatim>\<open>pools\<close> hold a value \<^verbatim>\<open>tables\<close> and the section
  \<^verbatim>\<open>projectServices\<close> a value \<^verbatim>\<open>serviceTables\<close>, other than \<^verbatim>\<open>null\<close>.
\<close>

definition sectionsShaped :: "projectData \<Rightarrow> bool" where
  "sectionsShaped pd =
     (\<not> isNullish (optProp (vestingAndUnlocking pd) ''tables'')
      \<and> \<not> isNullish (optProp (pools pd) ''tables'')
      \<and> \<not> isNullish (optProp (projectServices pd) ''serviceTables''))"

definition shapedDocument :: "jsstring + jsval \<Rightarrow> bool" where
  "shapedDocument file =
     (case loadProjectData file of
        Inl e \<Rightarrow> True
      | Inr pd \<Rightarrow> sectionsShaped pd)"


section \<open>Properties\<close>

subsection \<open>Auxiliary facts\<close>

lemma templateWanted_iff:
  "templateWanted act t \<longleftrightarrow> required t \<or> set (servicesOf t) \<inter> set act \<noteq> {}"
  by (cases "service t") (auto simp: templateWanted_def servicesOf_def list_ex_iff)

text \<open>The files written are named after the selected templates, in their order, up to the failing one.\<close>

lemma writeContracts_names:
  "prefix (map fst (snd (writeContracts r d ctx ts fs))) (map fst fs @ map outputName ts)"
proof (induction ts arbitrary: fs)
  case Nil
  show ?case by simp
next
  case (Cons t ts)
  show ?case
  proof (cases "d (inputName t)")
    case None
    then show ?thesis by (simp add: prefix_def)
  next
    case (Some src)
    show ?thesis
    proof (cases "r src ctx")
      case (Inl e)
      with Some show ?thesis by (simp add: prefix_def)
    next
      case (Inr code)
      with Some Cons.IH [of "fs @ [(outputName t, code)]"] show ?thesis by simp
    qed
  qed
qed

lemma writeContracts_success:
  "fst (writeContracts r d ctx ts fs) = None \<Longrightarrow>
   map fst (snd (writeContracts r d ctx ts fs)) = map fst fs @ map outputName ts"
proof (induction ts arbitrary: fs)
  case Nil
  show ?case by simp
next
  case (Cons t ts)
  from Cons.prems obtain src code where s: "d (inputName t) = Some src" and c: "r src ctx = Inr code"
    by (auto split: option.splits sum.splits)
  with Cons.prems have "fst (writeContracts r d ctx ts (fs @ [(outputName t, code)])) = None"
    by simp
  from Cons.IH [OF this] s c show ?case by simp
qed

lemma unlocking_only_templates:
  assumes "set act = {''unlocking''}"
  shows "map outputName (templatesToGenerate act) =
    [''Token.sol'', ''PoolManager.sol'', ''IToken.sol'', ''Unlocking.sol'', ''IPoolManager.sol'']"
  using assms by (simp add: templatesToGenerate_def ALL_TEMPLATES_def templateWanted_def)

lemma truthy_falsyValues: "\<not> truthy v \<longleftrightarrow> v \<in> falsyValues"
  by (cases v) (auto simp: falsyValues_def)

lemma getProp_ok: "j \<noteq> JNull \<Longrightarrow> j \<noteq> JUndefined \<Longrightarrow> \<exists>v. getProp j k = Inr v"
  by (cases j) simp_all

lemma getProp_TypeError: "getProp j k = Inl e \<Longrightarrow> e = TypeError \<and> (j = JNull \<or> j = JUndefined)"
  by (cases j) simp_all

lemma main_load_error:
  "loadProjectData file = Inl e \<Longrightarrow> main r d file = failed e"
  by (simp add: main_def)

lemma main_validation_error:
  "loadProjectData file = Inr pd \<Longrightarrow> determineActiveServices pd = Inr act \<Longrightarrow>
   validateServiceData act pd = Inl e \<Longrightarrow> main r d file = failed e"
  by (simp add: main_def)

lemma load_missing:
  assumes "j \<noteq> JNull" "j \<noteq> JUndefined"
  shows "loadProjectData (Inr j) = Inl (MissingRequiredFieldError missingFieldsMessage) \<longleftrightarrow>
    \<not> truthy (requiredField j ''tokenName'') \<or> \<not> truthy (requiredField j ''totalTokensAmount'')"
proof -
  from getProp_ok [OF assms] obtain v where "getProp j ''initialData'' = Inr v" by blast
  then show ?thesis
    by (simp add: loadProjectData_def requiredField_def Let_def)
qed

lemma load_succeeds:
  assumes "j \<noteq> JNull" "j \<noteq> JUndefined"
    and "truthy (requiredField j ''tokenName'')" "truthy (requiredField j ''totalTokensAmount'')"
  shows "\<exists>pd. loadProjectData (Inr j) = Inr pd"
proof -
  from getProp_ok [OF assms(1,2)] obtain v where "getProp j ''initialData'' = Inr v" by blast
  with assms(3,4) show ?thesis
    by (simp add: loadProjectData_def requiredField_def Let_def)
qed

lemma mono_main_early_error:
  "mono_sections file = Inl e \<Longrightarrow> mono_main r d file = failed e"
  "mono_sections file = Inr pd \<Longrightarrow> mono_requiredFields pd = Inl e \<Longrightarrow> mono_main r d file = failed e"
  by (simp_all add: mono_main_def)

lemma mono_main_validation_error:
  "mono_sections file = Inr pd \<Longrightarrow> mono_requiredFields pd = Inr u \<Longrightarrow> mono_rows pd = Inr rs \<Longrightarrow>
   mono_activeServices rs = Inr act \<Longrightarrow> mono_validate act rs pd = Inl e \<Longrightarrow>
   mono_main r d file = (failed e)\<lparr>outputDir := True\<rparr>"
  by (simp add: mono_main_def)

subsection \<open>Template selection\<close>

text \<open>
  Claim C1, as amended. For every configuration that loads, passes validation and has
  \<^verbatim>\<open>unlocking\<close> as its only active service, the selected outputs are exactly
  \<^verbatim>\<open>Token.sol\<close>, \<^verbatim>\<open>PoolManager.sol\<close>, \<^verbatim>\<open>IToken.sol\<close>, \<^verbatim>\<open>Unlocking.sol\<close>,
  \<^verbatim>\<open>IPoolManager.sol\<close>, in this order, which is the order of the catalog; the files a run
  writes are named by a prefix of this list, and by the whole list when the run succeeds.
\<close>

theorem unlocking_only_selection:
  assumes "loadProjectData file = Inr pd"
    and "determineActiveServices pd = Inr act"
    and "set act = {''unlocking''}"
    and "validateServiceData act pd = Inr ()"
  shows "map outputName (templatesToGenerate act) =
      [''Token.sol'', ''PoolManager.sol'', ''IToken.sol'', ''Unlocking.sol'', ''IPoolManager.sol'']
    \<and> prefix (map fst (written (main render templateDir file)))
        [''Token.sol'', ''PoolManager.sol'', ''IToken.sol'', ''Unlocking.sol'', ''IPoolManager.sol'']
    \<and> (exitError (main render templateDir file) = None \<longrightarrow>
        map fst (written (main render templateDir file)) =
          [''Token.sol'', ''PoolManager.sol'', ''IToken.sol'', ''Unlocking.sol'', ''IPoolManager.sol''])"
proof -
  let ?ts = "templatesToGenerate act"
  let ?r = "writeContracts render templateDir (buildContext pd act) ?ts []"
  have names: "map outputName ?ts =
      [''Token.sol'', ''PoolManager.sol'', ''IToken.sol'', ''Unlocking.sol'', ''IPoolManager.sol'']"
    using assms(3) by (rule unlocking_only_templates)
  have m: "main render templateDir file = \<lparr>exitError = fst ?r, outputDir = True, written = snd ?r\<rparr>"
    using assms(1,2,4) by (simp add: main_def generateContracts_def Let_def)
  have p: "prefix (map fst (snd ?r)) (map outputName ?ts)"
    using writeContracts_names [of render templateDir "buildContext pd act" ?ts "[]"] by simp
  have s: "fst ?r = None \<longrightarrow> map fst (snd ?r) = map outputName ?ts"
    using writeContracts_success [of render templateDir "buildContext pd act" ?ts "[]"] by simp
  from names m p s show ?thesis by simp
qed

theorem unlocking_only_selection_witness:
  "loadProjectData (Inr unlockingDoc) = Inr unlockingConfig
   \<and> determineActiveServices unlockingConfig = Inr [''unlocking'']
   \<and> validateServiceData [''unlocking''] unlockingConfig = Inr ()
   \<and> exitError (main echoRender fullTemplateDir (Inr unlockingDoc)) = None
   \<and> map fst (written (main echoRender fullTemplateDir (Inr unlockingDoc))) =
       [''Token.sol'', ''PoolManager.sol'', ''IToken.sol'', ''Unlocking.sol'', ''IPoolManager.sol'']"
proof -
  have l: "loadProjectData (Inr unlockingDoc) = Inr unlockingConfig"
    by code_simp
  have a: "determineActiveServices unlockingConfig = Inr [''unlocking'']"
    by code_simp
  have s: "set [''unlocking''] = {''unlocking''}"
    by simp
  have v: "validateServiceData [''unlocking''] unlockingConfig = Inr ()"
    by code_simp
  have e: "exitError (main echoRender fullTemplateDir (Inr unlockingDoc)) = None"
    by code_simp
  from unlocking_only_selection [OF l a s v, of echoRender fullTemplateDir] l a v e
  show ?thesis by simp
qed

text \<open>
  The order claimed in C1 (\<^verbatim>\<open>Token.sol\<close>, \<^verbatim>\<open>IToken.sol\<close>, \<^verbatim>\<open>PoolManager.sol\<close>,
  \<^verbatim>\<open>IPoolManager.sol\<close>, \<^verbatim>\<open>Unlocking.sol\<close>) is not the one selected for the sample
  configuration, whose only active service is \<^verbatim>\<open>unlocking\<close> and which passes validation.
\<close>

theorem unlocking_only_selection_counterexample:
  "loadProjectData (Inr unlockingDoc) = Inr unlockingConfig
   \<and> determineActiveServices unlockingConfig = Inr [''unlocking'']
   \<and> validateServiceData [''unlocking''] unlockingConfig = Inr ()
   \<and> map outputName (templatesToGenerate [''unlocking'']) \<noteq>
       [''Token.sol'', ''IToken.sol'', ''PoolManager.sol'', ''IPoolManager.sol'', ''Unlocking.sol'']"
  by code_simp

text \<open>
  Claim C7. For every list of active services, the selection is the catalog filtered by
  "required, or one of the names of the \<^verbatim>\<open>service\<close> field is active": a sublist of the
  six descriptors in catalog order, which always holds \<^verbatim>\<open>Token.sol\<close> and \<^verbatim>\<open>IToken.sol\<close>.
\<close>

theorem selection_is_catalog_filter:
  "templatesToGenerate act =
      filter (\<lambda>t. required t \<or> set (servicesOf t) \<inter> set act \<noteq> {}) ALL_TEMPLATES
   \<and> subseq (templatesToGenerate act) ALL_TEMPLATES
   \<and> length ALL_TEMPLATES = 6
   \<and> {''Token.sol'', ''IToken.sol''} \<subseteq> set (map outputName (templatesToGenerate act))"
proof -
  have a: "templatesToGenerate act =
      filter (\<lambda>t. required t \<or> set (servicesOf t) \<inter> set act \<noteq> {}) ALL_TEMPLATES"
    unfolding templatesToGenerate_def by (rule filter_cong) (simp_all add: templateWanted_iff)
  have b: "subseq (templatesToGenerate act) ALL_TEMPLATES"
    unfolding templatesToGenerate_def by simp
  have c: "length ALL_TEMPLATES = 6"
    by (simp add: ALL_TEMPLATES_def)
  have d: "{''Token.sol'', ''IToken.sol''} \<subseteq> set (map outputName (templatesToGenerate act))"
    by (simp add: templatesToGenerate_def ALL_TEMPLATES_def templateWanted_def)
  from a b c d show ?thesis by blast
qed

theorem selection_is_catalog_filter_witness:
  "map outputName (filter (\<lambda>t. required t \<or> set (servicesOf t) \<inter> set [''pools'', ''staking''] \<noteq> {})
       ALL_TEMPLATES) = [''Token.sol'', ''PoolManager.sol'', ''IToken.sol'', ''IPoolManager.sol'']
   \<and> subseq (templatesToGenerate [''pools'', ''staking'']) ALL_TEMPLATES"
proof -
  have "map outputName (templatesToGenerate [''pools'', ''staking'']) =
      [''Token.sol'', ''PoolManager.sol'', ''IToken.sol'', ''IPoolManager.sol'']"
    by code_simp
  with selection_is_catalog_filter [of "[''pools'', ''staking'']"] show ?thesis by simp
qed

subsection \<open>Failures before rendering\<close>

text \<open>
  Claim C2. A run whose configuration cannot be read or parsed, lacks a truthy
  \<^verbatim>\<open>initialData.tokenName\<close> or \<^verbatim>\<open>initialData.totalTokensAmount\<close>, or fails the
  cross-field validation ends with that very error and has written no file. This holds
  for the staged pipeline and for the monolithic script (which has by then created the
  output directory, but no file in it).
\<close>

theorem no_output_on_invalid_config:
  "(file = Inl message \<longrightarrow> main r d file = failed (ConfigLoadError (loadFailureMessage message)))
   \<and> (file = Inr j \<and> j \<noteq> JNull \<and> j \<noteq> JUndefined
        \<and> (\<not> truthy (requiredField j ''tokenName'') \<or> \<not> truthy (requiredField j ''totalTokensAmount''))
      \<longrightarrow> main r d file = failed (MissingRequiredFieldError missingFieldsMessage))
   \<and> (loadProjectData file = Inl e \<longrightarrow> main r d file = failed e)
   \<and> (loadProjectData file = Inr pd \<and> determineActiveServices pd = Inr act
        \<and> validateServiceData act pd = Inl e \<longrightarrow> main r d file = failed e)
   \<and> (mono_sections file = Inl e \<longrightarrow> mono_main r d file = failed e)
   \<and> (mono_sections file = Inr pd \<and> mono_requiredFields pd = Inl e \<longrightarrow> mono_main r d file = failed e)
   \<and> (mono_sections file = Inr pd \<and> mono_requiredFields pd = Inr u \<and> mono_rows pd = Inr rs
        \<and> mono_activeServices rs = Inr act \<and> mono_validate act rs pd = Inl e
      \<longrightarrow> mono_main r d file = (failed e)\<lparr>outputDir := True\<rparr>)
   \<and> exitError (failed e) = Some e \<and> written (failed e) = []
   \<and> exitError ((failed e)\<lparr>outputDir := True\<rparr>) = Some e
   \<and> written ((failed e)\<lparr>outputDir := True\<rparr>) = []"
proof -
  have a: "file = Inl message \<longrightarrow> main r d file = failed (ConfigLoadError (loadFailureMessage message))"
    by (simp add: main_def loadProjectData_def)
  have b: "file = Inr j \<and> j \<noteq> JNull \<and> j \<noteq> JUndefined
        \<and> (\<not> truthy (requiredField j ''tokenName'') \<or> \<not> truthy (requiredField j ''totalTokensAmount''))
      \<longrightarrow> main r d file = failed (MissingRequiredFieldError missingFieldsMessage)"
    using load_missing [of j] main_load_error [of "file" "MissingRequiredFieldError missingFieldsMessage" r d] by blast
  have c: "loadProjectData file = Inl e \<longrightarrow> main r d file = failed e"
    by (simp add: main_load_error)
  have d: "loadProjectData file = Inr pd \<and> determineActiveServices pd = Inr act
        \<and> validateServiceData act pd = Inl e \<longrightarrow> main r d file = failed e"
    by (simp add: main_validation_error)
  have e: "mono_sections file = Inl e \<longrightarrow> mono_main r d file = failed e"
    by (simp add: mono_main_early_error)
  have f: "mono_sections file = Inr pd \<and> mono_requiredFields pd = Inl e
      \<longrightarrow> mono_main r d file = failed e"
    by (simp add: mono_main_early_error)
  have g: "mono_sections file = Inr pd \<and> mono_requiredFields pd = Inr u \<and> mono_rows pd = Inr rs
        \<and> mono_activeServices rs = Inr act \<and> mono_validate act rs pd = Inl e
      \<longrightarrow> mono_main r d file = (failed e)\<lparr>outputDir := True\<rparr>"
    by (simp add: mono_main_validation_error)
  have h: "exitError (failed e) = Some e \<and> written (failed e) = []
   \<and> exitError ((failed e)\<lparr>outputDir := True\<rparr>) = Some e
   \<and> written ((failed e)\<lparr>outputDir := True\<rparr>) = []"
    by (simp add: failed_def)
  from a b c d e f g h show ?thesis by blast
qed

theorem no_output_on_invalid_config_witness:
  "exitError (main echoRender fullTemplateDir (Inr missingNameDoc)) = Some (MissingRequiredFieldError missingFieldsMessage)
   \<and> written (main echoRender fullTemplateDir (Inr missingNameDoc)) = []
   \<and> loadProjectData (Inr danglingAgentDoc) = Inr danglingAgentConfig
   \<and> determineActiveServices danglingAgentConfig = Inr [''unlocking'']
   \<and> validateServiceData [''unlocking''] danglingAgentConfig =
        Inl (InvalidAgentReferenceError
          [Chars (lit ''Invalid agents in unlocking data: ''), Chars (lit ''Bob'')])
   \<and> exitError (main echoRender fullTemplateDir (Inr danglingAgentDoc)) =
        Some (InvalidAgentReferenceError
          [Chars (lit ''Invalid agents in unlocking data: ''), Chars (lit ''Bob'')])
   \<and> written (main echoRender fullTemplateDir (Inr danglingAgentDoc)) = []"
proof -
  have n: "missingNameDoc \<noteq> JNull \<and> missingNameDoc \<noteq> JUndefined
      \<and> \<not> truthy (requiredField missingNameDoc ''tokenName'')"
    by code_simp
  have l: "loadProjectData (Inr danglingAgentDoc) = Inr danglingAgentConfig"
    by code_simp
  have a: "determineActiveServices danglingAgentConfig = Inr [''unlocking'']"
    by code_simp
  have v: "validateServiceData [''unlocking''] danglingAgentConfig =
      Inl (InvalidAgentReferenceError
          [Chars (lit ''Invalid agents in unlocking data: ''), Chars (lit ''Bob'')])"
    by code_simp
  have f: "exitError (failed e) = Some e \<and> written (failed e) = []" for e
    by (simp add: failed_def)
  from no_output_on_invalid_config
         [of "Inr missingNameDoc" _ echoRender fullTemplateDir missingNameDoc]
  have m1: "main echoRender fullTemplateDir (Inr missingNameDoc) = failed (MissingRequiredFieldError missingFieldsMessage)"
    using n by blast
  from no_output_on_invalid_config
         [of "Inr danglingAgentDoc" _ echoRender fullTemplateDir _
             "InvalidAgentReferenceError
          [Chars (lit ''Invalid agents in unlocking data: ''), Chars (lit ''Bob'')]" danglingAgentConfig "[''unlocking'']"]
  have m2: "main echoRender fullTemplateDir (Inr danglingAgentDoc) =
      failed (InvalidAgentReferenceError
          [Chars (lit ''Invalid agents in unlocking data: ''), Chars (lit ''Bob'')])"
    using l a v by blast
  from m1 m2 l a v f show ?thesis by simp
qed

subsection \<open>Required fields\<close>

text \<open>
  Claim C3. For every parsed document (other than \<^verbatim>\<open>null\<close>, on which reading a section
  already throws), loading fails with \<open>MissingRequiredFieldError\<close> if and only if
  \<^verbatim>\<open>initialData.tokenName\<close> or \<^verbatim>\<open>initialData.totalTokensAmount\<close> is falsy, that is
  missing, \<^verbatim>\<open>null\<close>, \<^verbatim>\<open>false\<close>, zero, \<^verbatim>\<open>NaN\<close> or the empty string; nothing else is checked,
  so in every other case loading succeeds. The monolithic script checks the same.
\<close>

theorem required_fields_check:
  assumes "j \<noteq> JNull" and "j \<noteq> JUndefined"
  shows "(loadProjectData (Inr j) = Inl (MissingRequiredFieldError missingFieldsMessage) \<longleftrightarrow>
           requiredField j ''tokenName'' \<in> falsyValues
           \<or> requiredField j ''totalTokensAmount'' \<in> falsyValues)
    \<and> (loadProjectData (Inr j) \<noteq> Inl (MissingRequiredFieldError missingFieldsMessage) \<longrightarrow>
         (\<exists>pd. loadProjectData (Inr j) = Inr pd))
    \<and> (mono_sections (Inr j) = Inr pd \<longrightarrow>
         (mono_requiredFields pd = Inl (MissingRequiredFieldError mono_missingFieldsMessage) \<longleftrightarrow>
            requiredField j ''tokenName'' \<in> falsyValues
            \<or> requiredField j ''totalTokensAmount'' \<in> falsyValues)
         \<and> (mono_requiredFields pd \<noteq> Inl (MissingRequiredFieldError mono_missingFieldsMessage) \<longrightarrow>
              mono_requiredFields pd = Inr ()))"
proof -
  have a: "loadProjectData (Inr j) = Inl (MissingRequiredFieldError missingFieldsMessage) \<longleftrightarrow>
           requiredField j ''tokenName'' \<in> falsyValues
           \<or> requiredField j ''totalTokensAmount'' \<in> falsyValues"
    using load_missing [OF assms] by (simp add: truthy_falsyValues)
  have b: "loadProjectData (Inr j) \<noteq> Inl (MissingRequiredFieldError missingFieldsMessage) \<longrightarrow>
         (\<exists>pd. loadProjectData (Inr j) = Inr pd)"
    using load_missing [OF assms] load_succeeds [OF assms] by blast
  have c: "mono_sections (Inr j) = Inr pd \<longrightarrow>
         (mono_requiredFields pd = Inl (MissingRequiredFieldError mono_missingFieldsMessage) \<longleftrightarrow>
            requiredField j ''tokenName'' \<in> falsyValues
            \<or> requiredField j ''totalTokensAmount'' \<in> falsyValues)
         \<and> (mono_requiredFields pd \<noteq> Inl (MissingRequiredFieldError mono_missingFieldsMessage) \<longrightarrow>
              mono_requiredFields pd = Inr ())"
  proof
    assume s: "mono_sections (Inr j) = Inr pd"
    from getProp_ok [OF assms] obtain v where "getProp j ''initialData'' = Inr v" by blast
    with s have "initialData pd = js_or (optProp j ''initialData'') (JObj [])"
      by (auto simp: mono_sections_def)
    then show "(mono_requiredFields pd = Inl (MissingRequiredFieldError mono_missingFieldsMessage) \<longleftrightarrow>
            requiredField j ''tokenName'' \<in> falsyValues
            \<or> requiredField j ''totalTokensAmount'' \<in> falsyValues)
         \<and> (mono_requiredFields pd \<noteq> Inl (MissingRequiredFieldError mono_missingFieldsMessage) \<longrightarrow>
              mono_requiredFields pd = Inr ())"
      by (simp add: mono_requiredFields_def requiredField_def truthy_falsyValues [symmetric])
  qed
  from a b c show ?thesis by blast
qed

theorem required_fields_check_witness:
  "missingNameDoc \<noteq> JNull \<and> missingNameDoc \<noteq> JUndefined
   \<and> requiredField missingNameDoc ''tokenName'' = JUndefined
   \<and> loadProjectData (Inr missingNameDoc) = Inl (MissingRequiredFieldError missingFieldsMessage)
   \<and> requiredField unlockingDoc ''tokenName'' \<notin> falsyValues
   \<and> requiredField unlockingDoc ''totalTokensAmount'' \<notin> falsyValues
   \<and> loadProjectData (Inr unlockingDoc) \<noteq> Inl (MissingRequiredFieldError missingFieldsMessage)"
proof -
  have n: "missingNameDoc \<noteq> JNull" "missingNameDoc \<noteq> JUndefined"
    by code_simp+
  have u: "unlockingDoc \<noteq> JNull" "unlockingDoc \<noteq> JUndefined"
    by code_simp+
  have m: "requiredField missingNameDoc ''tokenName'' = JUndefined"
    by code_simp
  have f: "JUndefined \<in> falsyValues"
    by (simp add: falsyValues_def)
  have t: "requiredField unlockingDoc ''tokenName'' = JStr (lit ''T'')"
    "requiredField unlockingDoc ''totalTokensAmount'' = JNum (Fin 1000)"
    by code_simp+
  have g: "JStr (lit ''T'') \<notin> falsyValues" "JNum (Fin 1000) \<notin> falsyValues"
    by (simp_all add: falsyValues_def lit_def)
  from required_fields_check [OF n] required_fields_check [OF u] n m f t g
  show ?thesis by simp
qed

subsection \<open>Auxiliary facts on conversions and activation\<close>

lemma getProp_optProp: "getProp a k = Inr v \<Longrightarrow> optProp a k = v"
  by (simp add: optProp_def)

text \<open>A conversion to text or to a number throws exactly on the values without a text.\<close>

lemma texts_total:
  "(unprintable v \<longrightarrow> jsToString v = Inl TypeError)
     \<and> (\<not> unprintable v \<longrightarrow> (\<exists>t. jsToString v = Inr t))"
  "(list_ex unprintable xs \<longrightarrow> elementTexts xs = Inl TypeError)
     \<and> (\<not> list_ex unprintable xs \<longrightarrow> (\<exists>ts. elementTexts xs = Inr ts))"
proof (induction v and xs rule: jsToString_elementTexts.induct)
  case (7 xs)
  then show ?case by auto
next
  case (9 x xs)
  show ?case
  proof (cases "x = JUndefined \<or> x = JNull")
    case True
    then have "\<not> unprintable x" by auto
    with True 9(2) [of "[]"] show ?thesis by auto
  next
    case False
    note h = 9(1) [OF False]
    show ?thesis
    proof (cases "unprintable x")
      case True
      with h False show ?thesis by simp
    next
      case u: False
      with h obtain t where t: "jsToString x = Inr t" by blast
      with False 9(2) [of t] u show ?thesis by auto
    qed
  qed
qed auto

lemma texts_error:
  "(jsToString v = Inl e \<longleftrightarrow> e = TypeError \<and> unprintable v)"
  "(elementTexts xs = Inl e \<longleftrightarrow> e = TypeError \<and> list_ex unprintable xs)"
  using texts_total(1) [of v] texts_total(2) [of xs] by auto

lemma toNumber_error: "toNumber v = Inl e \<longleftrightarrow> e = TypeError \<and> unprintable v"
proof (cases v)
  case (JArr xs)
  then show ?thesis
    using texts_error(2) [of xs] by (cases "elementTexts xs") auto
qed auto

lemma arrayJoin_error: "arrayJoin sep xs = Inl e \<longleftrightarrow> e = TypeError \<and> list_ex unprintable xs"
  using texts_error(2) [of xs] by (cases "elementTexts xs") (auto simp: arrayJoin_def)

lemma amountPositive_cases:
  "amountPositive row = (if rowRaises row then Inl TypeError else Inr (rowQualifies row))"
proof (cases "row = JNull \<or> row = JUndefined")
  case True
  then show ?thesis by (auto simp: amountPositive_def rowRaises_def)
next
  case False
  with getProp_ok [of row "''amount''"] obtain a where a: "getProp row ''amount'' = Inr a"
    by blast
  then have o: "optProp row ''amount'' = a" by (rule getProp_optProp)
  show ?thesis
  proof (cases "toNumber a")
    case (Inl e)
    with toNumber_error [of a e] a o False show ?thesis
      by (simp add: amountPositive_def rowRaises_def rowQualifies_def)
  next
    case (Inr n)
    with toNumber_error [of a TypeError] have "\<not> unprintable a" by simp
    with Inr a o False show ?thesis
      by (simp add: amountPositive_def rowRaises_def rowQualifies_def)
  qed
qed

lemma amountPositive_True: "amountPositive row = Inr True \<Longrightarrow> rowQualifies row"
  by (simp add: amountPositive_cases split: if_splits)

lemma someE_True: "someE p xs = Inr True \<Longrightarrow> \<exists>x\<in>set xs. p x = Inr True"
  by (induction xs) (auto split: sum.splits if_splits)

lemma active_members:
  assumes "determineActiveServices pd = Inr act"
  shows "''vesting'' \<in> set act \<longleftrightarrow> getRowsArray (vestingRowsOf pd) \<noteq> []"
    and "''unlocking'' \<in> set act \<longleftrightarrow> getRowsArray (unlockingRowsOf pd) \<noteq> []"
    and "''pools'' \<in> set act \<longleftrightarrow> someE amountPositive (getRowsArray (poolRowsOf pd)) = Inr True"
    and "''staking'' \<in> set act \<longleftrightarrow> getRowsArray (stakingRowsOf pd) \<noteq> []"
    and "''farming'' \<in> set act \<longleftrightarrow> getRowsArray (farmingRowsOf pd) \<noteq> []"
  using assms
  by (auto simp: determineActiveServices_def Let_def split: sum.splits if_splits)

lemma mono_active_members:
  assumes "mono_activeServices rs = Inr act"
  shows "''vesting'' \<in> set act \<longleftrightarrow> vestingRows rs \<noteq> []"
    and "''unlocking'' \<in> set act \<longleftrightarrow> unlockingRows rs \<noteq> []"
    and "''pools'' \<in> set act \<longleftrightarrow> someE amountPositive (poolRows rs) = Inr True"
    and "''staking'' \<in> set act \<longleftrightarrow> stakingRows rs \<noteq> []"
    and "''farming'' \<in> set act \<longleftrightarrow> farmingRows rs \<noteq> []"
  using assms
  by (auto simp: mono_activeServices_def Let_def split: sum.splits if_splits)

text \<open>
  The scan of the pool rows stops at the first row that counts; it throws when a row
  that cannot be examined comes before.
\<close>

lemma pool_scan:
  "someE amountPositive rows =
     (if list_ex rowRaises (takeWhile (\<lambda>row. \<not> rowQualifies row) rows) then Inl TypeError
      else Inr (list_ex rowQualifies rows))"
proof (induction rows)
  case Nil
  show ?case by simp
next
  case (Cons row rows)
  have x: "rowRaises row \<Longrightarrow> \<not> rowQualifies row"
    using toNumber_error [of "optProp row ''amount''" TypeError]
    by (auto simp: rowRaises_def rowQualifies_def optProp_def split: sum.splits)
  show ?case
    using Cons x by (auto simp: amountPositive_cases)
qed

lemma activation_result:
  "determineActiveServices pd = Inl e \<longleftrightarrow>
     e = TypeError
     \<and> list_ex rowRaises (takeWhile (\<lambda>row. \<not> rowQualifies row) (getRowsArray (poolRowsOf pd)))"
  by (cases "list_ex rowRaises
        (takeWhile (\<lambda>row. \<not> rowQualifies row) (getRowsArray (poolRowsOf pd)))")
     (auto simp: determineActiveServices_def Let_def pool_scan)

lemma mono_activation_result:
  "mono_activeServices rs = Inl e \<longleftrightarrow>
     e = TypeError
     \<and> list_ex rowRaises (takeWhile (\<lambda>row. \<not> rowQualifies row) (poolRows rs))"
  by (cases "list_ex rowRaises (takeWhile (\<lambda>row. \<not> rowQualifies row) (poolRows rs))")
     (auto simp: mono_activeServices_def Let_def pool_scan)

lemma pools_member:
  "determineActiveServices pd = Inr act \<Longrightarrow>
   ''pools'' \<in> set act \<longleftrightarrow> list_ex rowQualifies (getRowsArray (poolRowsOf pd))"
  "mono_activeServices rs = Inr act \<Longrightarrow>
   ''pools'' \<in> set act \<longleftrightarrow> list_ex rowQualifies (poolRows rs)"
  by (auto simp: determineActiveServices_def mono_activeServices_def Let_def pool_scan
      split: if_splits)

subsection \<open>Activation of \<^verbatim>\<open>pools\<close>\<close>

lemma toDouble_small: "\<bar>r\<bar> < 1000000 \<Longrightarrow> 1 / 1000000 < \<bar>r\<bar> \<Longrightarrow> toDouble r = Fin r"
proof -
  assume a: "\<bar>r\<bar> < 1000000" and b: "1 / 1000000 < \<bar>r\<bar>"
  have "(1::rat) / 2 ^ 1075 < 1 / 1000000" by simp
  with b have c: "\<not> \<bar>r\<bar> \<le> 1 / 2 ^ 1075" by linarith
  have "(1000000::rat) < 2 ^ 1024 - 2 ^ 970" by simp
  with a have d: "\<not> 2 ^ 1024 - 2 ^ 970 \<le> \<bar>r\<bar>" by linarith
  from c d show ?thesis by (simp add: toDouble_def)
qed

lemmas stringToNumber_defs =
  stringToNumber_def trimString_def isWhiteSpace_def nonDecimalBase_def strDecimalLiteral_def
  strUnsignedDecimalLiteral_def isDigit_def parseExponent_def decimalValue_def hexDigitValue_def
  digitsValue_def scale10_def lit_def codeUnit_def

lemma stringToNumber_samples:
  "stringToNumber (lit ''0'') = Fin 0"
  "stringToNumber (lit ''3'') = Fin 3"
  "stringToNumber (lit ''abc'') = NaN"
  "stringToNumber [0x2003, 0x33, 0xFEFF] = Fin 3"
  by (simp_all add: stringToNumber_defs toDouble_small) (simp add: toDouble_def)

lemma rowQualifies_samples:
  "\<not> rowQualifies (JObj [(''amount'', JStr (lit ''0''))])"
  "\<not> rowQualifies (JObj [(''amount'', JNum (Fin (- 5)))])"
  "\<not> rowQualifies (JObj [(''amount'', JStr (lit ''abc''))])"
  "\<not> rowQualifies (JObj [(''name'', JStr (lit ''team''))])"
  "rowQualifies (JObj [(''amount'', JStr (lit ''3''))])"
  "rowQualifies (JObj [(''amount'', JStr [0x2003, 0x33, 0xFEFF])])"
  by (simp_all add: rowQualifies_def optProp_def stringToNumber_samples) (simp_all add: lit_def)

text \<open>
  Claim C4, as amended. Activation inference throws a \<^verbatim>\<open>TypeError\<close> exactly when a
  pool row that cannot be examined (a \<^verbatim>\<open>null\<close> row, or a row whose truthy amount is an
  object with an own \<^verbatim>\<open>toString\<close> property or an array holding one) comes before every
  row that counts. For every other configuration it returns a list, and \<^verbatim>\<open>pools\<close>
  is in it if and only if some pool row has a truthy \<^verbatim>\<open>amount\<close> whose numeric conversion
  is greater than zero. A row whose amount is missing or converts to \<^verbatim>\<open>NaN\<close> never counts
  and never throws; the amounts \<^verbatim>\<open>"0"\<close> and \<^verbatim>\<open>-5\<close> do not count, the amount \<^verbatim>\<open>"3"\<close>
  does. The monolithic script infers the same from the rows it collected.
\<close>

theorem pools_activation:
  "(determineActiveServices pd = Inl TypeError \<longleftrightarrow>
      list_ex rowRaises (takeWhile (\<lambda>row. \<not> rowQualifies row) (getRowsArray (poolRowsOf pd))))
   \<and> (determineActiveServices pd \<noteq> Inl TypeError \<longrightarrow>
        (\<exists>act. determineActiveServices pd = Inr act
           \<and> (''pools'' \<in> set act \<longleftrightarrow>
                (\<exists>row\<in>set (getRowsArray (poolRowsOf pd)). rowQualifies row))))
   \<and> (mono_activeServices rs = Inl TypeError \<longleftrightarrow>
        list_ex rowRaises (takeWhile (\<lambda>row. \<not> rowQualifies row) (poolRows rs)))
   \<and> (mono_activeServices rs \<noteq> Inl TypeError \<longrightarrow>
        (\<exists>act. mono_activeServices rs = Inr act
           \<and> (''pools'' \<in> set act \<longleftrightarrow> (\<exists>row\<in>set (poolRows rs). rowQualifies row))))
   \<and> (row \<noteq> JNull \<and> row \<noteq> JUndefined
        \<and> (optProp row ''amount'' = JUndefined \<or> toNumber (optProp row ''amount'') = Inr NaN)
       \<longrightarrow> \<not> rowQualifies row \<and> \<not> rowRaises row)
   \<and> \<not> rowQualifies (JObj [(''amount'', JStr (lit ''0''))])
   \<and> \<not> rowQualifies (JObj [(''amount'', JNum (Fin (- 5)))])
   \<and> rowQualifies (JObj [(''amount'', JStr (lit ''3''))])"
proof -
  have a: "determineActiveServices pd = Inl TypeError \<longleftrightarrow>
      list_ex rowRaises (takeWhile (\<lambda>row. \<not> rowQualifies row) (getRowsArray (poolRowsOf pd)))"
    by (simp add: activation_result)
  have b: "determineActiveServices pd \<noteq> Inl TypeError \<longrightarrow>
        (\<exists>act. determineActiveServices pd = Inr act
           \<and> (''pools'' \<in> set act \<longleftrightarrow>
                (\<exists>row\<in>set (getRowsArray (poolRowsOf pd)). rowQualifies row)))"
  proof
    assume n: "determineActiveServices pd \<noteq> Inl TypeError"
    then obtain act where r: "determineActiveServices pd = Inr act"
      using activation_result [of pd] by (cases "determineActiveServices pd") auto
    from pools_member(1) [OF r] r
    show "\<exists>act. determineActiveServices pd = Inr act
           \<and> (''pools'' \<in> set act \<longleftrightarrow>
                (\<exists>row\<in>set (getRowsArray (poolRowsOf pd)). rowQualifies row))"
      by (simp add: list_ex_iff)
  qed
  have c: "mono_activeServices rs = Inl TypeError \<longleftrightarrow>
        list_ex rowRaises (takeWhile (\<lambda>row. \<not> rowQualifies row) (poolRows rs))"
    by (simp add: mono_activation_result)
  have d: "mono_activeServices rs \<noteq> Inl TypeError \<longrightarrow>
        (\<exists>act. mono_activeServices rs = Inr act
           \<and> (''pools'' \<in> set act \<longleftrightarrow> (\<exists>row\<in>set (poolRows rs). rowQualifies row)))"
  proof
    assume n: "mono_activeServices rs \<noteq> Inl TypeError"
    then obtain act where r: "mono_activeServices rs = Inr act"
      using mono_activation_result [of rs] by (cases "mono_activeServices rs") auto
    from pools_member(2) [OF r] r
    show "\<exists>act. mono_activeServices rs = Inr act
           \<and> (''pools'' \<in> set act \<longleftrightarrow> (\<exists>row\<in>set (poolRows rs). rowQualifies row))"
      by (simp add: list_ex_iff)
  qed
  have e: "row \<noteq> JNull \<and> row \<noteq> JUndefined
        \<and> (optProp row ''amount'' = JUndefined \<or> toNumber (optProp row ''amount'') = Inr NaN)
       \<longrightarrow> \<not> rowQualifies row \<and> \<not> rowRaises row"
    using toNumber_error [of "optProp row ''amount''" TypeError]
    by (auto simp: rowQualifies_def rowRaises_def)
  from a b c d e rowQualifies_samples(1,2,5) show ?thesis by blast
qed

theorem pools_activation_witness:
  "getRowsArray (poolRowsOf (poolsConfig idlePoolRows)) =
      [JObj [(''amount'', JStr (lit ''0''))], JObj [(''amount'', JNum (Fin (- 5)))],
       JObj [(''amount'', JStr (lit ''abc''))], JObj [(''name'', JStr (lit ''team''))]]
   \<and> determineActiveServices (poolsConfig idlePoolRows) = Inr []
   \<and> getRowsArray (poolRowsOf (poolsConfig busyPoolRows)) =
      [JObj [(''amount'', JStr (lit ''0''))], JObj [(''amount'', JNum (Fin (- 5)))],
       JObj [(''amount'', JStr (lit ''3''))]]
   \<and> determineActiveServices (poolsConfig busyPoolRows) = Inr [''pools'']
   \<and> getRowsArray (poolRowsOf (poolsConfig lateTroubleRows)) =
      [JObj [(''amount'', JStr (lit ''3''))], JNull,
       JObj [(''amount'', JObj [(''toString'', JNum (Fin 0))])]]
   \<and> determineActiveServices (poolsConfig lateTroubleRows) = Inr [''pools'']"
proof -
  have i: "getRowsArray (poolRowsOf (poolsConfig idlePoolRows)) =
      [JObj [(''amount'', JStr (lit ''0''))], JObj [(''amount'', JNum (Fin (- 5)))],
       JObj [(''amount'', JStr (lit ''abc''))], JObj [(''name'', JStr (lit ''team''))]]"
    by (simp add: poolsConfig_def idlePoolRows_def poolRowsOf_def optProp_def)
  have b: "getRowsArray (poolRowsOf (poolsConfig busyPoolRows)) =
      [JObj [(''amount'', JStr (lit ''0''))], JObj [(''amount'', JNum (Fin (- 5)))],
       JObj [(''amount'', JStr (lit ''3''))]]"
    by (simp add: poolsConfig_def busyPoolRows_def poolRowsOf_def optProp_def)
  have t: "getRowsArray (poolRowsOf (poolsConfig lateTroubleRows)) =
      [JObj [(''amount'', JStr (lit ''3''))], JNull,
       JObj [(''amount'', JObj [(''toString'', JNum (Fin 0))])]]"
    by (simp add: poolsConfig_def lateTroubleRows_def poolRowsOf_def optProp_def)
  have o: "getRowsArray (vestingRowsOf (poolsConfig rows)) = []
      \<and> getRowsArray (unlockingRowsOf (poolsConfig rows)) = []
      \<and> getRowsArray (stakingRowsOf (poolsConfig rows)) = []
      \<and> getRowsArray (farmingRowsOf (poolsConfig rows)) = []" for rows
    by (simp add: poolsConfig_def vestingRowsOf_def unlockingRowsOf_def stakingRowsOf_def
        farmingRowsOf_def optProp_def defaultVestingAndUnlocking_def defaultProjectServices_def
        emptyRows_def)
  have only: "determineActiveServices (poolsConfig rows) = Inr act \<Longrightarrow>
      act = (if ''pools'' \<in> set act then [''pools''] else [])" for rows act
    using o [of rows]
    by (auto simp: determineActiveServices_def Let_def split: sum.splits if_splits)
  have plain: "\<not> rowRaises (JObj [(''amount'', JStr s)])"
    "\<not> rowRaises (JObj [(''amount'', JNum n)])"
    "\<not> rowRaises (JObj [(''name'', v)])" for s n v
    by (simp_all add: rowRaises_def optProp_def)
  have hi: "\<not> list_ex rowRaises (takeWhile (\<lambda>row. \<not> rowQualifies row)
      (getRowsArray (poolRowsOf (poolsConfig idlePoolRows))))"
    by (simp add: i plain)
  have hb: "\<not> list_ex rowRaises (takeWhile (\<lambda>row. \<not> rowQualifies row)
      (getRowsArray (poolRowsOf (poolsConfig busyPoolRows))))"
    by (simp add: b plain)
  have ht: "\<not> list_ex rowRaises (takeWhile (\<lambda>row. \<not> rowQualifies row)
      (getRowsArray (poolRowsOf (poolsConfig lateTroubleRows))))"
    by (simp add: t rowQualifies_samples)
  from pools_activation [of "poolsConfig idlePoolRows", THEN conjunct1] hi
  have "determineActiveServices (poolsConfig idlePoolRows) \<noteq> Inl TypeError"
    by simp
  with pools_activation [of "poolsConfig idlePoolRows", THEN conjunct2, THEN conjunct1]
  obtain ai where
    ai: "determineActiveServices (poolsConfig idlePoolRows) = Inr ai"
    and pi: "''pools'' \<in> set ai \<longleftrightarrow>
      (\<exists>row\<in>set (getRowsArray (poolRowsOf (poolsConfig idlePoolRows))). rowQualifies row)"
    by auto
  from pi have "''pools'' \<notin> set ai"
    by (simp add: i rowQualifies_samples)
  with only [OF ai] ai have ri: "determineActiveServices (poolsConfig idlePoolRows) = Inr []"
    by simp
  from pools_activation [of "poolsConfig busyPoolRows", THEN conjunct1] hb
  have "determineActiveServices (poolsConfig busyPoolRows) \<noteq> Inl TypeError"
    by simp
  with pools_activation [of "poolsConfig busyPoolRows", THEN conjunct2, THEN conjunct1]
  obtain ab where
    ab: "determineActiveServices (poolsConfig busyPoolRows) = Inr ab"
    and pb: "''pools'' \<in> set ab \<longleftrightarrow>
      (\<exists>row\<in>set (getRowsArray (poolRowsOf (poolsConfig busyPoolRows))). rowQualifies row)"
    by auto
  from pb have "''pools'' \<in> set ab"
    by (simp add: b rowQualifies_samples)
  with only [OF ab] ab have rb: "determineActiveServices (poolsConfig busyPoolRows) = Inr [''pools'']"
    by simp
  from pools_activation [of "poolsConfig lateTroubleRows", THEN conjunct1] ht
  have "determineActiveServices (poolsConfig lateTroubleRows) \<noteq> Inl TypeError"
    by simp
  with pools_activation [of "poolsConfig lateTroubleRows", THEN conjunct2, THEN conjunct1]
  obtain al where
    al: "determineActiveServices (poolsConfig lateTroubleRows) = Inr al"
    and pt: "''pools'' \<in> set al \<longleftrightarrow>
      (\<exists>row\<in>set (getRowsArray (poolRowsOf (poolsConfig lateTroubleRows))). rowQualifies row)"
    by auto
  from pt have "''pools'' \<in> set al"
    by (simp add: t rowQualifies_samples)
  with only [OF al] al have rt: "determineActiveServices (poolsConfig lateTroubleRows) = Inr [''pools'']"
    by simp
  from i b t ri rb rt show ?thesis by simp
qed

text \<open>
  C4 as stated fails on two configurations. In the first the pool rows are \<^verbatim>\<open>null\<close> and
  \<^verbatim>\<open>{amount: "3"}\<close>, in the second \<^verbatim>\<open>{amount: {toString: 0}}\<close> and \<^verbatim>\<open>{amount: "3"}\<close>:
  a row with a positive amount exists, yet the first row cannot be examined, so an error
  is raised and \<^verbatim>\<open>pools\<close> is not inferred.
\<close>

theorem pools_activation_counterexample:
  "loadProjectData (Inr nullPoolRowDoc) = Inr nullPoolRowConfig
   \<and> getRowsArray (poolRowsOf nullPoolRowConfig) = [JNull, JObj [(''amount'', JStr (lit ''3''))]]
   \<and> rowQualifies (JObj [(''amount'', JStr (lit ''3''))])
   \<and> determineActiveServices nullPoolRowConfig = Inl TypeError
   \<and> main echoRender fullTemplateDir (Inr nullPoolRowDoc) = failed TypeError
   \<and> getRowsArray (poolRowsOf (poolsConfig objectAmountRows)) =
       [JObj [(''amount'', JObj [(''toString'', JNum (Fin 0))])],
        JObj [(''amount'', JStr (lit ''3''))]]
   \<and> determineActiveServices (poolsConfig objectAmountRows) = Inl TypeError"
proof -
  have l: "loadProjectData (Inr nullPoolRowDoc) = Inr nullPoolRowConfig"
    by code_simp
  have r: "getRowsArray (poolRowsOf nullPoolRowConfig) = [JNull, JObj [(''amount'', JStr (lit ''3''))]]"
    by (simp add: nullPoolRowConfig_def poolRowsOf_def optProp_def)
  have a: "determineActiveServices nullPoolRowConfig = Inl TypeError"
    by code_simp
  from l a have m: "main echoRender fullTemplateDir (Inr nullPoolRowDoc) = failed TypeError"
    by (simp add: main_def)
  have r': "getRowsArray (poolRowsOf (poolsConfig objectAmountRows)) =
       [JObj [(''amount'', JObj [(''toString'', JNum (Fin 0))])],
        JObj [(''amount'', JStr (lit ''3''))]]"
    by (simp add: poolsConfig_def objectAmountRows_def poolRowsOf_def optProp_def)
  have a': "determineActiveServices (poolsConfig objectAmountRows) = Inl TypeError"
    by code_simp
  from l r a m r' a' rowQualifies_samples(5) show ?thesis by simp
qed

subsection \<open>Auxiliary facts on the validators\<close>

lemma mapE_error: "mapE f xs = Inl e \<Longrightarrow> \<exists>x\<in>set xs. f x = Inl e"
  by (induction xs arbitrary: e) (auto split: sum.splits)

lemma filterE_error: "filterE p xs = Inl e \<Longrightarrow> \<exists>x\<in>set xs. p x = Inl e"
  by (induction xs arbitrary: e) (auto split: sum.splits)

lemma getPath_error: "getPath a ks = Inl e \<Longrightarrow> e = TypeError"
  by (induction ks arbitrary: a) (auto split: sum.splits dest: getProp_TypeError)

lemma mapE_getProp_error: "mapE (\<lambda>row. getProp row k) xs = Inl e \<Longrightarrow> e = TypeError"
  by (auto dest!: mapE_error getProp_TypeError)

lemma isInvalidRow_error: "isInvalidRow va vr row = Inl e \<Longrightarrow> e = TypeError"
  by (auto simp: isInvalidRow_def split: sum.splits if_splits dest: getProp_TypeError)

lemma filterE_isInvalidRow_error: "filterE (isInvalidRow va vr) xs = Inl e \<Longrightarrow> e = TypeError"
  by (auto dest!: filterE_error isInvalidRow_error)

lemma case_sum_Inl_iff:
  "(case m of Inl e \<Rightarrow> Inl e | Inr x \<Rightarrow> f x) = Inl e' \<longleftrightarrow>
     m = Inl e' \<or> (\<exists>x. m = Inr x \<and> f x = Inl e')"
  by (cases m) simp_all

lemma validateUnlocking_errors:
  assumes "validateUnlocking pd = Inl e"
  shows "e = TypeError
    \<or> e = UnlockingDataError ''Unlocking requires agent or investment round data''
    \<or> (\<exists>vs. e = InvalidAgentReferenceError vs)"
  using assms unfolding validateUnlocking_def Let_def
  by (auto simp: case_sum_Inl_iff arrayJoin_error split: if_splits sum.splits
      dest: getProp_TypeError mapE_getProp_error getPath_error filterE_isInvalidRow_error)

lemma mono_validateUnlocking_errors:
  assumes "mono_validateUnlocking rs pd = Inl e"
  shows "e = TypeError
    \<or> e = UnlockingDataError ''Unlocking requires agent or investment round data''
    \<or> (\<exists>vs. e = InvalidAgentReferenceError vs)"
  using assms unfolding mono_validateUnlocking_def Let_def
  by (auto simp: case_sum_Inl_iff arrayJoin_error split: if_splits sum.splits
      dest: getProp_TypeError mapE_getProp_error filterE_isInvalidRow_error)

lemma validateUnlocking_not_vesting: "validateUnlocking pd \<noteq> Inl (VestingDataError m)"
  using validateUnlocking_errors [of pd "VestingDataError m"] by auto

lemma mono_validateUnlocking_not_vesting: "mono_validateUnlocking rs pd \<noteq> Inl (VestingDataError m)"
  using mono_validateUnlocking_errors [of rs pd "VestingDataError m"] by auto


subsection \<open>Prerequisites of \<^verbatim>\<open>vesting\<close>\<close>

text \<open>
  Claim C6, as amended. Whatever else is active, when \<^verbatim>\<open>vesting\<close> is active validation
  fails with \<^verbatim>\<open>Vesting requires pool data\<close> if there is no pool row, and fails with
  \<^verbatim>\<open>Vesting requires agent data\<close> if there is no agent row but there are pool rows; with
  neither pool rows nor agent rows the error is the one for the pool data, the first of
  the two checks. The monolithic script does the same on the rows it collected.
\<close>

theorem vesting_prerequisites:
  assumes "''vesting'' \<in> set act"
  shows "(getRowsArray (poolRowsOf pd) = [] \<longrightarrow>
           validateServiceData act pd = Inl (VestingDataError ''Vesting requires pool data''))
    \<and> (agentRowsOf pd = [] \<longrightarrow> (\<exists>m. validateServiceData act pd = Inl (VestingDataError m)))
    \<and> (getRowsArray (poolRowsOf pd) \<noteq> [] \<and> agentRowsOf pd = [] \<longrightarrow>
           validateServiceData act pd = Inl (VestingDataError ''Vesting requires agent data''))
    \<and> (poolRows rs = [] \<longrightarrow>
           mono_validate act rs pd = Inl (VestingDataError ''Vesting requires pool data''))
    \<and> (poolRows rs \<noteq> [] \<and> getProp (agents pd) ''rows'' = Inr ar \<and> getRowsArray ar = [] \<longrightarrow>
           mono_validate act rs pd = Inl (VestingDataError ''Vesting requires agent data''))"
proof -
  have a: "getRowsArray (poolRowsOf pd) = [] \<longrightarrow>
           validateServiceData act pd = Inl (VestingDataError ''Vesting requires pool data'')"
    using assms by (simp add: validateServiceData_def validateVesting_def)
  have c: "getRowsArray (poolRowsOf pd) \<noteq> [] \<and> agentRowsOf pd = [] \<longrightarrow>
           validateServiceData act pd = Inl (VestingDataError ''Vesting requires agent data'')"
    using assms by (simp add: validateServiceData_def validateVesting_def agentRowsOf_def)
  from a c have b: "agentRowsOf pd = [] \<longrightarrow> (\<exists>m. validateServiceData act pd = Inl (VestingDataError m))"
    by blast
  have d: "poolRows rs = [] \<longrightarrow>
           mono_validate act rs pd = Inl (VestingDataError ''Vesting requires pool data'')"
    using assms by (simp add: mono_validate_def mono_validateVesting_def)
  have e: "poolRows rs \<noteq> [] \<and> getProp (agents pd) ''rows'' = Inr ar \<and> getRowsArray ar = [] \<longrightarrow>
           mono_validate act rs pd = Inl (VestingDataError ''Vesting requires agent data'')"
    using assms by (simp add: mono_validate_def mono_validateVesting_def)
  from a b c d e show ?thesis by blast
qed

theorem vesting_prerequisites_witness:
  "getRowsArray (poolRowsOf vestingOnlyConfig) = []
   \<and> validateServiceData [''vesting'', ''staking''] vestingOnlyConfig =
       Inl (VestingDataError ''Vesting requires pool data'')
   \<and> getRowsArray (poolRowsOf vestingNoAgentsConfig) \<noteq> []
   \<and> agentRowsOf vestingNoAgentsConfig = []
   \<and> validateServiceData [''vesting''] vestingNoAgentsConfig =
       Inl (VestingDataError ''Vesting requires agent data'')"
proof -
  have v: "''vesting'' \<in> set [''vesting'', ''staking'']" "''vesting'' \<in> set [''vesting'']"
    by simp_all
  have p: "getRowsArray (poolRowsOf vestingOnlyConfig) = []"
    by code_simp
  have q: "getRowsArray (poolRowsOf vestingNoAgentsConfig) \<noteq> []"
    by code_simp
  have r: "agentRowsOf vestingNoAgentsConfig = []"
    by code_simp
  from vesting_prerequisites [OF v(1), of vestingOnlyConfig]
    vesting_prerequisites [OF v(2), of vestingNoAgentsConfig] p q r
  show ?thesis by blast
qed

text \<open>
  In the sample configuration \<^verbatim>\<open>vesting\<close> is active and there is no agent row, but no
  pool row either: validation does not fail with \<^verbatim>\<open>Vesting requires agent data\<close>, as C6
  states for an empty agents collection, but with \<^verbatim>\<open>Vesting requires pool data\<close>.
\<close>

theorem vesting_prerequisites_counterexample:
  "agentRowsOf vestingOnlyConfig = []
   \<and> getRowsArray (poolRowsOf vestingOnlyConfig) = []
   \<and> determineActiveServices vestingOnlyConfig = Inr [''vesting'']
   \<and> validateServiceData [''vesting''] vestingOnlyConfig =
       Inl (VestingDataError ''Vesting requires pool data'')
   \<and> validateServiceData [''vesting''] vestingOnlyConfig \<noteq>
       Inl (VestingDataError ''Vesting requires agent data'')"
  by code_simp

text \<open>
  Claim C10. Take a configuration with pool rows none of which has a truthy amount that
  converts to a positive number, and with \<^verbatim>\<open>vesting\<close> among the inferred services. Then
  \<^verbatim>\<open>pools\<close> is not active and \<^verbatim>\<open>hasPools\<close> is false, yet the check for pool data does
  not fire, since it looks at the presence of rows only: with an agent row the vesting
  check passes (and the whole validation when \<^verbatim>\<open>unlocking\<close> is inactive), and
  \<^verbatim>\<open>Vesting.sol\<close> is selected for rendering. The pool-data check of the monolithic
  script does not fire either.
\<close>

theorem vesting_with_inactive_pools:
  assumes "determineActiveServices pd = Inr act"
    and "''vesting'' \<in> set act"
    and "getRowsArray (poolRowsOf pd) \<noteq> []"
    and "\<forall>row\<in>set (getRowsArray (poolRowsOf pd)). \<not> rowQualifies row"
  shows "''pools'' \<notin> set act
    \<and> \<not> hasPools (buildContext pd act)
    \<and> hasVesting (buildContext pd act)
    \<and> validateServiceData act pd \<noteq> Inl (VestingDataError ''Vesting requires pool data'')
    \<and> (agentRowsOf pd \<noteq> [] \<longrightarrow> validateVesting pd = Inr ())
    \<and> (agentRowsOf pd \<noteq> [] \<and> ''unlocking'' \<notin> set act \<longrightarrow> validateServiceData act pd = Inr ())
    \<and> ''Vesting.sol'' \<in> set (map outputName (templatesToGenerate act))
    \<and> (poolRows rs = getRowsArray (poolRowsOf pd) \<longrightarrow>
         mono_validate act rs pd \<noteq> Inl (VestingDataError ''Vesting requires pool data''))"
proof -
  have a: "''pools'' \<notin> set act"
  proof
    assume "''pools'' \<in> set act"
    with active_members(3) [OF assms(1)]
    have "someE amountPositive (getRowsArray (poolRowsOf pd)) = Inr True" by simp
    from someE_True [OF this] obtain row where
      "row \<in> set (getRowsArray (poolRowsOf pd))" and "amountPositive row = Inr True"
      by blast
    with assms(4) amountPositive_True show False by blast
  qed
  from a assms(2) have b: "\<not> hasPools (buildContext pd act) \<and> hasVesting (buildContext pd act)"
    by (simp add: buildContext_def)
  have c: "validateVesting pd \<noteq> Inl (VestingDataError ''Vesting requires pool data'')"
    using assms(3) by (simp add: validateVesting_def)
  have d: "validateServiceData act pd \<noteq> Inl (VestingDataError ''Vesting requires pool data'')"
    using c assms(2) validateUnlocking_not_vesting [of pd "''Vesting requires pool data''"]
    by (cases "validateVesting pd") (auto simp: validateServiceData_def)
  have e: "agentRowsOf pd \<noteq> [] \<longrightarrow> validateVesting pd = Inr ()"
    using assms(3) by (simp add: validateVesting_def agentRowsOf_def)
  from e assms(2)
  have f: "agentRowsOf pd \<noteq> [] \<and> ''unlocking'' \<notin> set act \<longrightarrow> validateServiceData act pd = Inr ()"
    by (simp add: validateServiceData_def)
  have g: "''Vesting.sol'' \<in> set (map outputName (templatesToGenerate act))"
    using assms(2) by (simp add: templatesToGenerate_def ALL_TEMPLATES_def templateWanted_def)
  have h: "poolRows rs = getRowsArray (poolRowsOf pd) \<longrightarrow>
         mono_validate act rs pd \<noteq> Inl (VestingDataError ''Vesting requires pool data'')"
  proof
    assume "poolRows rs = getRowsArray (poolRowsOf pd)"
    with assms(3) have "mono_validateVesting rs pd \<noteq> Inl (VestingDataError ''Vesting requires pool data'')"
      by (auto simp: mono_validateVesting_def split: sum.splits dest: getProp_TypeError)
    with assms(2) mono_validateUnlocking_not_vesting [of rs pd "''Vesting requires pool data''"]
    show "mono_validate act rs pd \<noteq> Inl (VestingDataError ''Vesting requires pool data'')"
      by (cases "mono_validateVesting rs pd") (auto simp: mono_validate_def)
  qed
  from a b d e f g h show ?thesis by blast
qed

theorem vesting_with_inactive_pools_witness:
  "loadProjectData (Inr vestingDoc) = Inr vestingConfig
   \<and> determineActiveServices vestingConfig = Inr [''vesting'']
   \<and> length (getRowsArray (poolRowsOf vestingConfig)) = 3
   \<and> \<not> hasPools (buildContext vestingConfig [''vesting''])
   \<and> validateServiceData [''vesting''] vestingConfig = Inr ()
   \<and> exitError (main echoRender fullTemplateDir (Inr vestingDoc)) = None
   \<and> map fst (written (main echoRender fullTemplateDir (Inr vestingDoc))) =
       [''Token.sol'', ''Vesting.sol'', ''PoolManager.sol'', ''IToken.sol'', ''IPoolManager.sol'']"
proof -
  have l: "loadProjectData (Inr vestingDoc) = Inr vestingConfig"
    by code_simp
  have a: "determineActiveServices vestingConfig = Inr [''vesting'']"
    by code_simp
  have v: "''vesting'' \<in> set [''vesting'']" "''unlocking'' \<notin> set [''vesting'']"
    by simp_all
  have r: "getRowsArray (poolRowsOf vestingConfig) =
      [JObj [(''amount'', JNum (Fin 0))], JObj [(''amount'', JNum (Fin (- 5)))],
       JObj [(''name'', JStr (lit ''team''))]]"
    by code_simp
  from r have n: "getRowsArray (poolRowsOf vestingConfig) \<noteq> []"
    by simp
  have q: "\<forall>row\<in>set (getRowsArray (poolRowsOf vestingConfig)). \<not> rowQualifies row"
    by (simp add: r rowQualifies_def optProp_def)
  have g: "agentRowsOf vestingConfig \<noteq> []"
    by code_simp
  have e: "exitError (main echoRender fullTemplateDir (Inr vestingDoc)) = None"
    by code_simp
  have w: "map fst (written (main echoRender fullTemplateDir (Inr vestingDoc))) =
       [''Token.sol'', ''Vesting.sol'', ''PoolManager.sol'', ''IToken.sol'', ''IPoolManager.sol'']"
    by code_simp
  from vesting_with_inactive_pools [OF a v(1) n q] g v(2)
  have "\<not> hasPools (buildContext vestingConfig [''vesting''])
      \<and> validateServiceData [''vesting''] vestingConfig = Inr ()"
    by blast
  with l a r e w show ?thesis by simp
qed

subsection \<open>Auxiliary facts on the two variants\<close>

lemma loaded_sections_truthy:
  assumes "loadProjectData file = Inr pd"
  shows "truthy (agents pd)" and "truthy (investmentRounds pd)"
proof -
  from assms obtain j where f: "file = Inr j"
    by (cases "file") (simp_all add: loadProjectData_def)
  with assms obtain v where g: "getProp j ''initialData'' = Inr v"
    by (cases "getProp j ''initialData''") (simp_all add: loadProjectData_def)
  from assms f g have "agents pd = js_or (optProp j ''agents'') emptyRows
      \<and> investmentRounds pd = js_or (optProp j ''investmentRounds'') emptyRows"
    by (auto simp: loadProjectData_def Let_def split: if_splits)
  then show "truthy (agents pd)" and "truthy (investmentRounds pd)"
    by (simp_all add: js_or_def emptyRows_def)
qed

lemma truthy_getProp: "truthy a \<Longrightarrow> getProp a k = Inr (optProp a k)"
  by (cases a) (simp_all add: optProp_def)

lemma falsy_no_rows: "\<not> truthy v \<Longrightarrow> getRowsArray v = []"
  by (cases v) simp_all

lemma optProp_chain_rows:
  assumes "getRowsArray (optProp (optProp (optProp d t) k) ''rows'') \<noteq> []"
  shows "getPath d [t, k, ''rows''] = Inr (optProp (optProp (optProp d t) k) ''rows'')"
proof -
  have n: "getRowsArray (optProp a x) \<noteq> [] \<Longrightarrow> getProp a x = Inr (optProp a x)" for a x
    by (cases "getProp a x") (simp_all add: optProp_def)
  have u: "optProp JUndefined x = JUndefined" for x
    by (simp add: optProp_def)
  have m: "optProp a x \<noteq> JUndefined \<Longrightarrow> getProp a x = Inr (optProp a x)" for a x
    by (cases "getProp a x") (simp_all add: optProp_def)
  from assms have r: "getProp (optProp (optProp d t) k) ''rows'' =
      Inr (optProp (optProp (optProp d t) k) ''rows'')"
    by (rule n)
  from assms have "optProp (optProp d t) k \<noteq> JUndefined"
    by (auto simp: u)
  then have k: "getProp (optProp d t) k = Inr (optProp (optProp d t) k)"
    by (rule m)
  from \<open>optProp (optProp d t) k \<noteq> JUndefined\<close> have "optProp d t \<noteq> JUndefined"
    by (auto simp: u)
  then have t: "getProp d t = Inr (optProp d t)"
    by (rule m)
  from t k r show ?thesis by simp
qed

lemma mono_rowsAt_rows:
  assumes "mono_rowsAt d t k = Inr rows"
  shows "getRowsArray (optProp (optProp (optProp d t) k) ''rows'') = rows"
proof -
  from assms obtain a where a: "getProp d t = Inr a"
    by (cases "getProp d t") (simp_all add: mono_rowsAt_def)
  with assms obtain v where v: "getProp a k = Inr v"
    by (cases "getProp a k") (simp_all add: mono_rowsAt_def)
  from a v have o: "optProp (optProp d t) k = v"
    by (simp add: optProp_def)
  show ?thesis
  proof (cases "truthy v")
    case True
    with assms a v obtain r where r: "getProp v ''rows'' = Inr r" and "getRowsArray r = rows"
      by (cases "getProp v ''rows''") (simp_all add: mono_rowsAt_def)
    with o show ?thesis by (simp add: optProp_def)
  next
    case False
    with assms a v have e: "rows = []"
      by (simp add: mono_rowsAt_def falsy_no_rows)
    from False have "getRowsArray (optProp v ''rows'') = []"
      by (cases v) (simp_all add: optProp_def)
    with o e show ?thesis by simp
  qed
qed

lemma mono_rows_eq:
  assumes "mono_rows pd = Inr rs"
  shows "vestingRows rs = getRowsArray (vestingRowsOf pd)"
    and "unlockingRows rs = getRowsArray (unlockingRowsOf pd)"
    and "poolRows rs = getRowsArray (poolRowsOf pd)"
    and "stakingRows rs = getRowsArray (stakingRowsOf pd)"
    and "farmingRows rs = getRowsArray (farmingRowsOf pd)"
proof -
  from assms obtain vr ur pr sr fr where
    "mono_rowsAt (vestingAndUnlocking pd) ''tables'' ''vesting'' = Inr vr"
    "mono_rowsAt (vestingAndUnlocking pd) ''tables'' ''unlocking'' = Inr ur"
    "mono_rowsAt (pools pd) ''tables'' ''pools'' = Inr pr"
    "mono_rowsAt (projectServices pd) ''serviceTables'' ''staking'' = Inr sr"
    "mono_rowsAt (projectServices pd) ''serviceTables'' ''farming'' = Inr fr"
    and rs: "rs = \<lparr>vestingRows = vr, unlockingRows = ur, poolRows = pr, stakingRows = sr,
      farmingRows = fr\<rparr>"
    unfolding mono_rows_def by (auto split: sum.splits)
  then show "vestingRows rs = getRowsArray (vestingRowsOf pd)"
    and "unlockingRows rs = getRowsArray (unlockingRowsOf pd)"
    and "poolRows rs = getRowsArray (poolRowsOf pd)"
    and "stakingRows rs = getRowsArray (stakingRowsOf pd)"
    and "farmingRows rs = getRowsArray (farmingRowsOf pd)"
    by (simp_all add: mono_rowsAt_rows vestingRowsOf_def unlockingRowsOf_def poolRowsOf_def
        stakingRowsOf_def farmingRowsOf_def)
qed

lemma mono_active_eq:
  assumes "mono_rows pd = Inr rs"
  shows "mono_activeServices rs = determineActiveServices pd"
  by (simp add: mono_activeServices_def determineActiveServices_def mono_rows_eq [OF assms]
      cong: sum.case_cong)

lemma mono_validateUnlocking_eq:
  assumes "mono_rows pd = Inr rs" and "unlockingRows rs \<noteq> []"
  shows "validateUnlocking pd = mono_validateUnlocking rs pd"
proof -
  from assms have "getRowsArray (unlockingRowsOf pd) \<noteq> []"
    by (simp add: mono_rows_eq)
  then have "getPath (vestingAndUnlocking pd) [''tables'', ''unlocking'', ''rows''] =
      Inr (unlockingRowsOf pd)"
    unfolding unlockingRowsOf_def by (rule optProp_chain_rows)
  then show ?thesis
    unfolding validateUnlocking_def mono_validateUnlocking_def
    by (simp add: mono_rows_eq(2) [OF assms(1)] del: getPath.simps cong: sum.case_cong if_cong)
qed

lemma mono_templates_eq: "mono_templatesToGenerate act = templatesToGenerate act"
  by (simp add: mono_templatesToGenerate_def templatesToGenerate_def ALL_TEMPLATES_def
      mono_templateWanted_def templateWanted_def)

lemma main_as_plan:
  "exitError (main r d file) = fst (runPlan r d (stagedPlan file))"
  "written (main r d file) = snd (runPlan r d (stagedPlan file))"
  by (auto simp: main_def stagedPlan_def runPlan_def failed_def generateContracts_def Let_def
      split: sum.splits)

lemma mono_main_as_plan:
  "exitError (mono_main r d file) = fst (runPlan r d (mono_plan file))"
  "written (mono_main r d file) = snd (runPlan r d (mono_plan file))"
  by (auto simp: mono_main_def mono_plan_def runPlan_def failed_def Let_def mono_templates_eq
      split: sum.splits)


lemma load_as_sections:
  "loadProjectData file =
     (case mono_sections file of
        Inl e \<Rightarrow> Inl (stagedWording e)
      | Inr pd \<Rightarrow>
          (case mono_requiredFields pd of Inl e \<Rightarrow> Inl (stagedWording e) | Inr u \<Rightarrow> Inr pd))"
proof (cases "file")
  case (Inl m)
  then show ?thesis
    by (simp add: loadProjectData_def mono_sections_def mono_loadFailureMessage_def)
next
  case (Inr j)
  show ?thesis
  proof (cases "getProp j ''initialData''")
    case (Inl e)
    with Inr getProp_TypeError [OF Inl] show ?thesis
      by (simp add: loadProjectData_def mono_sections_def)
  next
    case r: (Inr v)
    with Inr show ?thesis
      by (simp add: loadProjectData_def mono_sections_def mono_requiredFields_def Let_def)
  qed
qed

lemma load_sections_same:
  "loadProjectData file = Inr pd \<Longrightarrow> mono_sections file = Inr pd \<and> mono_requiredFields pd = Inr ()"
  by (auto simp: load_as_sections split: sum.splits)

lemma loaded_iff:
  "(\<exists>pd. loadProjectData file = Inr pd) \<longleftrightarrow>
     (\<exists>pd. mono_sections file = Inr pd \<and> mono_requiredFields pd = Inr ())"
  by (auto simp: load_as_sections split: sum.splits)

lemma mono_rowsAt_shaped:
  assumes "\<not> isNullish (optProp d t)"
  shows "\<exists>rows. mono_rowsAt d t k = Inr rows"
proof -
  from assms have "d \<noteq> JNull" "d \<noteq> JUndefined"
    by (auto simp: isNullish_def optProp_def)
  with getProp_ok [of d t] obtain a where a: "getProp d t = Inr a" by blast
  with assms have "a \<noteq> JNull" "a \<noteq> JUndefined"
    by (auto simp: isNullish_def optProp_def)
  with getProp_ok [of a k] obtain v where v: "getProp a k = Inr v" by blast
  show ?thesis
  proof (cases "truthy v")
    case True
    then have "v \<noteq> JNull" "v \<noteq> JUndefined" by auto
    with getProp_ok [of v "''rows''"] obtain r where "getProp v ''rows'' = Inr r" by blast
    with a v True show ?thesis by (simp add: mono_rowsAt_def)
  next
    case False
    with a v show ?thesis by (simp add: mono_rowsAt_def)
  qed
qed

lemma mono_rows_shaped:
  assumes "sectionsShaped pd"
  shows "\<exists>rs. mono_rows pd = Inr rs"
proof -
  from assms have v: "\<not> isNullish (optProp (vestingAndUnlocking pd) ''tables'')"
    and p: "\<not> isNullish (optProp (pools pd) ''tables'')"
    and s: "\<not> isNullish (optProp (projectServices pd) ''serviceTables'')"
    by (simp_all add: sectionsShaped_def)
  from mono_rowsAt_shaped [OF v, of "''vesting''"] obtain vr where
    "mono_rowsAt (vestingAndUnlocking pd) ''tables'' ''vesting'' = Inr vr" by blast
  moreover from mono_rowsAt_shaped [OF v, of "''unlocking''"] obtain ur where
    "mono_rowsAt (vestingAndUnlocking pd) ''tables'' ''unlocking'' = Inr ur" by blast
  moreover from mono_rowsAt_shaped [OF p, of "''pools''"] obtain pr where
    "mono_rowsAt (pools pd) ''tables'' ''pools'' = Inr pr" by blast
  moreover from mono_rowsAt_shaped [OF s, of "''staking''"] obtain sr where
    "mono_rowsAt (projectServices pd) ''serviceTables'' ''staking'' = Inr sr" by blast
  moreover from mono_rowsAt_shaped [OF s, of "''farming''"] obtain fr where
    "mono_rowsAt (projectServices pd) ''serviceTables'' ''farming'' = Inr fr" by blast
  ultimately show ?thesis by (simp add: mono_rows_def)
qed

lemma mono_validateVesting_eq:
  assumes "mono_rows pd = Inr rs" and "truthy (agents pd)"
  shows "validateVesting pd = mono_validateVesting rs pd"
  by (simp add: mono_validateVesting_def validateVesting_def mono_rows_eq [OF assms(1)]
      truthy_getProp [OF assms(2)])

lemma mono_validate_eq:
  assumes "mono_rows pd = Inr rs" and "mono_activeServices rs = Inr act" and "truthy (agents pd)"
  shows "validateServiceData act pd = mono_validate act rs pd"
proof -
  have u: "''unlocking'' \<in> set act \<Longrightarrow> validateUnlocking pd = mono_validateUnlocking rs pd"
    using mono_active_members(2) [OF assms(2)] mono_validateUnlocking_eq [OF assms(1)] by simp
  note v = mono_validateVesting_eq [OF assms(1,3)]
  show ?thesis
  proof (cases "''vesting'' \<in> set act")
    case True
    show ?thesis
    proof (cases "mono_validateVesting rs pd")
      case (Inl e)
      with v True show ?thesis by (simp add: validateServiceData_def mono_validate_def)
    next
      case (Inr x)
      with v True u show ?thesis by (simp add: validateServiceData_def mono_validate_def)
    qed
  next
    case False
    with u show ?thesis
      by (simp add: validateServiceData_def mono_validate_def)
  qed
qed

lemma stagedWording_other:
  "(\<forall>m. e \<noteq> ConfigLoadError m) \<and> (\<forall>m. e \<noteq> MissingRequiredFieldError m) \<Longrightarrow> stagedWording e = e"
  by (cases e) simp_all

lemma validate_error_wording:
  "validateServiceData act pd = Inl e \<Longrightarrow> stagedWording e = e"
proof -
  assume a: "validateServiceData act pd = Inl e"
  then have "validateVesting pd = Inl e \<or> validateUnlocking pd = Inl e"
    by (auto simp: validateServiceData_def split: if_splits sum.splits)
  then show "stagedWording e = e"
    using validateUnlocking_errors [of pd e]
    by (auto simp: validateVesting_def split: if_splits)
qed

lemma plans_agree:
  assumes "shapedDocument file"
  shows "stagedPlan file = map_sum stagedWording id (mono_plan file)"
proof (cases "loadProjectData file")
  case (Inl e)
  then show ?thesis
    by (auto simp: stagedPlan_def mono_plan_def load_as_sections split: sum.splits)
next
  case l: (Inr pd)
  note s = load_sections_same [OF l]
  from assms l have "sectionsShaped pd" by (simp add: shapedDocument_def)
  from mono_rows_shaped [OF this] obtain rs where r: "mono_rows pd = Inr rs" by blast
  note a = mono_active_eq [OF r]
  show ?thesis
  proof (cases "mono_activeServices rs")
    case (Inl e)
    with a have d: "determineActiveServices pd = Inl e" by simp
    with activation_result [of pd e] have "e = TypeError" by simp
    with l s r Inl d show ?thesis by (simp add: stagedPlan_def mono_plan_def)
  next
    case act: (Inr act)
    with a have d: "determineActiveServices pd = Inr act" by simp
    note v = mono_validate_eq [OF r act loaded_sections_truthy(1) [OF l]]
    show ?thesis
    proof (cases "mono_validate act rs pd")
      case (Inl e)
      with v validate_error_wording [of act pd e] l s r d act show ?thesis
        by (simp add: stagedPlan_def mono_plan_def)
    next
      case (Inr u)
      with v l s r d act show ?thesis
        by (simp add: stagedPlan_def mono_plan_def mono_templates_eq)
    qed
  qed
qed

lemma outputDir_main: "outputDir (main r d file) \<longleftrightarrow> (\<exists>p. stagedPlan file = Inr p)"
  by (auto simp: main_def stagedPlan_def failed_def Let_def split: sum.splits)

lemma outputDir_mono_main:
  "outputDir (mono_main r d file) \<longleftrightarrow>
     (\<exists>pd. mono_sections file = Inr pd \<and> mono_requiredFields pd = Inr ())"
  by (auto simp: mono_main_def failed_def Let_def split: sum.splits)

subsection \<open>Defaults of the loader\<close>

lemma js_or_sectionOrDefault: "js_or (optProp j name) dflt = sectionOrDefault j name dflt"
  by (simp add: js_or_def sectionOrDefault_def truthy_falsyValues [symmetric])

text \<open>
  Claim C8, as amended. On success the loader stores, for each of the six top-level
  sections independently, the value found in the document when that value is truthy
  (any object, however partial, is kept as it is and never merged with the defaults),
  and the empty, well-shaped placeholder when the section is absent or falsy
  (\<^verbatim>\<open>null\<close>, \<^verbatim>\<open>false\<close>, \<^verbatim>\<open>0\<close>, \<^verbatim>\<open>""\<close>). The monolithic script builds the same sections.
\<close>

theorem section_defaults:
  assumes "loadProjectData (Inr j) = Inr pd"
  shows "initialData pd = sectionOrDefault j ''initialData'' (JObj [])
    \<and> vestingAndUnlocking pd = sectionOrDefault j ''vestingAndUnlocking''
         (JObj [(''tables'', JObj [(''unlocking'', JObj [(''rows'', JObj [])]),
                                   (''vesting'', JObj [(''rows'', JObj [])])])])
    \<and> pools pd = sectionOrDefault j ''pools''
         (JObj [(''tables'', JObj [(''pools'', JObj [(''rows'', JObj [])])])])
    \<and> agents pd = sectionOrDefault j ''agents'' (JObj [(''rows'', JObj [])])
    \<and> investmentRounds pd = sectionOrDefault j ''investmentRounds'' (JObj [(''rows'', JObj [])])
    \<and> projectServices pd = sectionOrDefault j ''projectServices''
         (JObj [(''serviceTables'', JObj [(''staking'', JObj [(''rows'', JObj [])]),
                                          (''farming'', JObj [(''rows'', JObj [])])])])
    \<and> mono_sections (Inr j) = Inr pd
    \<and> (j = JObj kvs \<and> map_of kvs name = None \<longrightarrow> sectionOrDefault j name placeholder = placeholder)
    \<and> (truthy (optProp j name) \<longrightarrow> sectionOrDefault j name placeholder = optProp j name)"
proof -
  from assms obtain v where g: "getProp j ''initialData'' = Inr v"
    by (cases "getProp j ''initialData''") (simp_all add: loadProjectData_def)
  with assms have pd: "pd =
      \<lparr>initialData = js_or (optProp j ''initialData'') (JObj []),
       vestingAndUnlocking = js_or (optProp j ''vestingAndUnlocking'') defaultVestingAndUnlocking,
       pools = js_or (optProp j ''pools'') defaultPools,
       agents = js_or (optProp j ''agents'') emptyRows,
       investmentRounds = js_or (optProp j ''investmentRounds'') emptyRows,
       projectServices = js_or (optProp j ''projectServices'') defaultProjectServices\<rparr>"
    by (simp add: loadProjectData_def Let_def split: if_splits)
  have fields: "initialData pd = sectionOrDefault j ''initialData'' (JObj [])
    \<and> vestingAndUnlocking pd = sectionOrDefault j ''vestingAndUnlocking''
         (JObj [(''tables'', JObj [(''unlocking'', JObj [(''rows'', JObj [])]),
                                   (''vesting'', JObj [(''rows'', JObj [])])])])
    \<and> pools pd = sectionOrDefault j ''pools''
         (JObj [(''tables'', JObj [(''pools'', JObj [(''rows'', JObj [])])])])
    \<and> agents pd = sectionOrDefault j ''agents'' (JObj [(''rows'', JObj [])])
    \<and> investmentRounds pd = sectionOrDefault j ''investmentRounds'' (JObj [(''rows'', JObj [])])
    \<and> projectServices pd = sectionOrDefault j ''projectServices''
         (JObj [(''serviceTables'', JObj [(''staking'', JObj [(''rows'', JObj [])]),
                                          (''farming'', JObj [(''rows'', JObj [])])])])"
    by (simp add: pd js_or_sectionOrDefault defaultVestingAndUnlocking_def defaultPools_def
        defaultProjectServices_def emptyRows_def)
  from g pd have mono: "mono_sections (Inr j) = Inr pd"
    by (simp add: mono_sections_def)
  have absent: "j = JObj kvs \<and> map_of kvs name = None \<longrightarrow>
      sectionOrDefault j name placeholder = placeholder"
    by (simp add: sectionOrDefault_def optProp_def falsyValues_def)
  have kept: "truthy (optProp j name) \<longrightarrow> sectionOrDefault j name placeholder = optProp j name"
    by (simp add: sectionOrDefault_def truthy_falsyValues [symmetric])
  from fields mono absent kept show ?thesis by blast
qed

theorem section_defaults_witness:
  "loadProjectData (Inr partialPoolsDoc) = Inr partialPoolsConfig
   \<and> getProp partialPoolsDoc ''pools'' = Inr (JObj [])
   \<and> pools partialPoolsConfig = JObj []
   \<and> getProp partialPoolsDoc ''agents'' = Inr JUndefined
   \<and> agents partialPoolsConfig = JObj [(''rows'', JObj [])]
   \<and> mono_sections (Inr partialPoolsDoc) = Inr partialPoolsConfig"
proof -
  have l: "loadProjectData (Inr partialPoolsDoc) = Inr partialPoolsConfig"
    by code_simp
  have p: "getProp partialPoolsDoc ''pools'' = Inr (JObj [])"
    by code_simp
  have a: "getProp partialPoolsDoc ''agents'' = Inr JUndefined"
    by code_simp
  have sp: "sectionOrDefault partialPoolsDoc ''pools'' x = JObj []" for x
    by (simp add: sectionOrDefault_def getProp_optProp [OF p] falsyValues_def)
  have sa: "sectionOrDefault partialPoolsDoc ''agents'' x = x" for x
    by (simp add: sectionOrDefault_def getProp_optProp [OF a] falsyValues_def)
  from section_defaults [OF l] l p a sp sa show ?thesis by simp
qed

text \<open>
  In the sample document the sections \<^verbatim>\<open>pools\<close> and \<^verbatim>\<open>agents\<close> are present, with the
  values \<^verbatim>\<open>null\<close> and \<^verbatim>\<open>0\<close>; they are not used as they are, as C8 states for a section
  that is present, but replaced by the placeholders.
\<close>

theorem section_defaults_counterexample:
  "getProp falsySectionsDoc ''pools'' = Inr JNull
   \<and> getProp falsySectionsDoc ''agents'' = Inr (JNum (Fin 0))
   \<and> loadProjectData (Inr falsySectionsDoc) = Inr falsySectionsConfig
   \<and> pools falsySectionsConfig = JObj [(''tables'', JObj [(''pools'', JObj [(''rows'', JObj [])])])]
   \<and> agents falsySectionsConfig = JObj [(''rows'', JObj [])]"
  by code_simp


subsection \<open>The two variants\<close>

text \<open>
  Claim C9, as amended. Take a document in whose configuration the sections
  \<^verbatim>\<open>vestingAndUnlocking\<close> and \<^verbatim>\<open>pools\<close> hold a value \<^verbatim>\<open>tables\<close> and the section
  \<^verbatim>\<open>projectServices\<close> a value \<^verbatim>\<open>serviceTables\<close>. Then the monolithic script and the
  staged pipeline compute the same active services, stop with the same error (the
  script wording the message of a load failure and of a missing field differently),
  select the same templates, build the same context and write the same files. Beyond
  that the script only creates the output directory earlier: it exists as soon as the
  configuration has loaded, with the pipeline only when validation has passed.
\<close>

theorem variants_agree:
  assumes "shapedDocument file"
  shows "stagedPlan file = map_sum stagedWording id (mono_plan file)
    \<and> written (main r d file) = written (mono_main r d file)
    \<and> (mono_plan file = Inl e \<longrightarrow>
         exitError (mono_main r d file) = Some e
         \<and> exitError (main r d file) = Some (stagedWording e))
    \<and> (mono_plan file = Inr p \<longrightarrow> exitError (main r d file) = exitError (mono_main r d file))
    \<and> (outputDir (main r d file) \<longleftrightarrow> (\<exists>p. stagedPlan file = Inr p))
    \<and> (outputDir (mono_main r d file) \<longleftrightarrow> (\<exists>pd. loadProjectData file = Inr pd))
    \<and> ((\<forall>m. e' \<noteq> ConfigLoadError m) \<and> (\<forall>m. e' \<noteq> MissingRequiredFieldError m) \<longrightarrow>
         stagedWording e' = e')
    \<and> stagedWording (ConfigLoadError (mono_loadFailureMessage m)) =
         ConfigLoadError (loadFailureMessage m)
    \<and> stagedWording (MissingRequiredFieldError mono_missingFieldsMessage) =
         MissingRequiredFieldError missingFieldsMessage"
proof -
  note pl = plans_agree [OF assms]
  have w: "written (main r d file) = written (mono_main r d file)"
    unfolding main_as_plan mono_main_as_plan pl
    by (cases "mono_plan file") (auto simp: runPlan_def)
  have e1: "mono_plan file = Inl e \<longrightarrow>
         exitError (mono_main r d file) = Some e
         \<and> exitError (main r d file) = Some (stagedWording e)"
    unfolding main_as_plan mono_main_as_plan pl by (simp add: runPlan_def)
  have e2: "mono_plan file = Inr p \<longrightarrow> exitError (main r d file) = exitError (mono_main r d file)"
    unfolding main_as_plan mono_main_as_plan pl by (auto simp: runPlan_def)
  have o1: "outputDir (main r d file) \<longleftrightarrow> (\<exists>p. stagedPlan file = Inr p)"
    by (rule outputDir_main)
  have o2: "outputDir (mono_main r d file) \<longleftrightarrow> (\<exists>pd. loadProjectData file = Inr pd)"
    unfolding outputDir_mono_main loaded_iff ..
  have s1: "(\<forall>m. e' \<noteq> ConfigLoadError m) \<and> (\<forall>m. e' \<noteq> MissingRequiredFieldError m) \<longrightarrow>
         stagedWording e' = e'"
    using stagedWording_other [of e'] by simp
  have s2: "stagedWording (ConfigLoadError (mono_loadFailureMessage m)) =
         ConfigLoadError (loadFailureMessage m)"
    by (simp add: mono_loadFailureMessage_def)
  have s3: "stagedWording (MissingRequiredFieldError mono_missingFieldsMessage) =
         MissingRequiredFieldError missingFieldsMessage"
    by simp
  show ?thesis
    by (intro conjI pl w e1 e2 o1 o2 s1 s2 s3)
qed

theorem variants_agree_witness:
  "shapedDocument (Inr danglingAgentDoc)
   \<and> mono_plan (Inr danglingAgentDoc) =
       Inl (InvalidAgentReferenceError
          [Chars (lit ''Invalid agents in unlocking data: ''), Chars (lit ''Bob'')])
   \<and> stagedPlan (Inr danglingAgentDoc) =
       Inl (InvalidAgentReferenceError
          [Chars (lit ''Invalid agents in unlocking data: ''), Chars (lit ''Bob'')])
   \<and> shapedDocument (Inr vestingDoc)
   \<and> mono_plan (Inr vestingDoc) =
       Inr ([''vesting''], templatesToGenerate [''vesting''], buildContext vestingConfig [''vesting''])
   \<and> stagedPlan (Inr vestingDoc) =
       Inr ([''vesting''], templatesToGenerate [''vesting''], buildContext vestingConfig [''vesting''])
   \<and> map fst (written (mono_main echoRender fullTemplateDir (Inr vestingDoc))) =
       [''Token.sol'', ''Vesting.sol'', ''PoolManager.sol'', ''IToken.sol'', ''IPoolManager.sol'']
   \<and> map fst (written (main echoRender fullTemplateDir (Inr vestingDoc))) =
       [''Token.sol'', ''Vesting.sol'', ''PoolManager.sol'', ''IToken.sol'', ''IPoolManager.sol'']"
proof -
  have sa: "shapedDocument (Inr danglingAgentDoc)"
    by code_simp
  have sb: "shapedDocument (Inr vestingDoc)"
    by code_simp
  have a: "mono_plan (Inr danglingAgentDoc) =
       Inl (InvalidAgentReferenceError
          [Chars (lit ''Invalid agents in unlocking data: ''), Chars (lit ''Bob'')])"
    by code_simp
  have b: "mono_plan (Inr vestingDoc) =
       Inr ([''vesting''], templatesToGenerate [''vesting''], buildContext vestingConfig [''vesting''])"
    by code_simp
  have c: "map fst (written (mono_main echoRender fullTemplateDir (Inr vestingDoc))) =
       [''Token.sol'', ''Vesting.sol'', ''PoolManager.sol'', ''IToken.sol'', ''IPoolManager.sol'']"
    by code_simp
  from variants_agree [OF sa, THEN conjunct1] a
  have a': "stagedPlan (Inr danglingAgentDoc) =
       Inl (InvalidAgentReferenceError
          [Chars (lit ''Invalid agents in unlocking data: ''), Chars (lit ''Bob'')])"
    by simp
  from variants_agree [OF sb, THEN conjunct1] b
  have b': "stagedPlan (Inr vestingDoc) =
       Inr ([''vesting''], templatesToGenerate [''vesting''], buildContext vestingConfig [''vesting''])"
    by simp
  from variants_agree [OF sb, of echoRender fullTemplateDir, THEN conjunct2, THEN conjunct1] c
  have c': "map fst (written (main echoRender fullTemplateDir (Inr vestingDoc))) =
       [''Token.sol'', ''Vesting.sol'', ''PoolManager.sol'', ''IToken.sol'', ''IPoolManager.sol'']"
    by simp
  show ?thesis
    by (intro conjI sa sb a a' b b' c c')
qed

text \<open>
  C9 as stated fails in three ways. After a failed validation the script has created
  the output directory and the pipeline has not; the message for a missing field is
  worded differently; and on a document with an empty \<^verbatim>\<open>pools\<close> section the script
  stops with a \<^verbatim>\<open>TypeError\<close> and writes nothing, while the pipeline finds no active
  service and writes the two required contracts.
\<close>

theorem variants_agree_counterexample:
  "\<not> outputDir (main echoRender fullTemplateDir (Inr danglingAgentDoc))
   \<and> outputDir (mono_main echoRender fullTemplateDir (Inr danglingAgentDoc))
   \<and> exitError (main echoRender fullTemplateDir (Inr missingNameDoc)) =
       Some (MissingRequiredFieldError missingFieldsMessage)
   \<and> exitError (mono_main echoRender fullTemplateDir (Inr missingNameDoc)) =
       Some (MissingRequiredFieldError mono_missingFieldsMessage)
   \<and> missingFieldsMessage \<noteq> mono_missingFieldsMessage
   \<and> mono_plan (Inr partialPoolsDoc) = Inl TypeError
   \<and> exitError (mono_main echoRender fullTemplateDir (Inr partialPoolsDoc)) = Some TypeError
   \<and> written (mono_main echoRender fullTemplateDir (Inr partialPoolsDoc)) = []
   \<and> stagedPlan (Inr partialPoolsDoc) =
       Inr ([], templatesToGenerate [], buildContext partialPoolsConfig [])
   \<and> exitError (main echoRender fullTemplateDir (Inr partialPoolsDoc)) = None
   \<and> map fst (written (main echoRender fullTemplateDir (Inr partialPoolsDoc))) =
       [''Token.sol'', ''IToken.sol'']"
  by code_simp

subsection \<open>Auxiliary facts on the unlocking validator\<close>

lemma mapE_getProp_total:
  "\<forall>row\<in>set rows. row \<noteq> JNull \<and> row \<noteq> JUndefined \<Longrightarrow>
   mapE (\<lambda>row. getProp row k) rows = Inr (map (\<lambda>row. optProp row k) rows)"
proof (induction rows)
  case Nil
  show ?case by simp
next
  case (Cons row rows)
  from Cons.prems getProp_ok [of row k] obtain v where v: "getProp row k = Inr v"
    by auto
  with Cons show ?case by (simp add: optProp_def)
qed

lemma arrayIncludes_map:
  "arrayIncludes (map f xs) v = list_ex (\<lambda>x. sameValueZero (f x) v) xs"
  by (simp add: arrayIncludes_def list_ex_iff)

lemma isInvalidRow_spec:
  assumes "row \<noteq> JNull" and "row \<noteq> JUndefined"
  shows "isInvalidRow (map (\<lambda>a. optProp a ''agentName'') agentRows)
           (map (\<lambda>r. optProp r ''source_name'') roundRows) row =
         Inr (\<not> rowResolves agentRows roundRows row)"
proof -
  from getProp_ok [OF assms] obtain ty where ty: "getProp row ''agent_optionType'' = Inr ty"
    by blast
  from getProp_ok [OF assms] obtain v where v: "getProp row ''agent_optionValue'' = Inr v"
    by blast
  from ty v show ?thesis
    by (auto simp: isInvalidRow_def rowResolves_def optProp_def arrayIncludes_map lit_def)
qed

lemma filterE_total:
  "\<forall>x\<in>set xs. p x = Inr (q x) \<Longrightarrow> filterE p xs = Inr (filter q xs)"
  by (induction xs) simp_all


lemma validateUnlocking_data_error:
  assumes "truthy (agents pd)" and "truthy (investmentRounds pd)"
  shows "validateUnlocking pd = Inl (UnlockingDataError m) \<longleftrightarrow>
    agentRowsOf pd = [] \<and> investmentRoundRowsOf pd = []
    \<and> m = ''Unlocking requires agent or investment round data''"
proof (cases "agentRowsOf pd = [] \<and> investmentRoundRowsOf pd = []")
  case True
  then show ?thesis
    by (auto simp: validateUnlocking_def agentRowsOf_def investmentRoundRowsOf_def
        truthy_getProp [OF assms(1)] truthy_getProp [OF assms(2)])
next
  case False
  have "validateUnlocking pd \<noteq> Inl (UnlockingDataError m)"
  proof
    assume e: "validateUnlocking pd = Inl (UnlockingDataError m)"
    from False have n: "\<not> (length (getRowsArray (optProp (agents pd) ''rows'')) = 0
        \<and> length (getRowsArray (optProp (investmentRounds pd) ''rows'')) = 0)"
      by (simp add: agentRowsOf_def investmentRoundRowsOf_def)
    from e show False
      unfolding validateUnlocking_def Let_def
        truthy_getProp [OF assms(1)] truthy_getProp [OF assms(2)] sum.case if_not_P [OF n]
      by (auto simp: case_sum_Inl_iff arrayJoin_error split: if_splits sum.splits
          dest: mapE_getProp_error getProp_TypeError filterE_isInvalidRow_error)
  qed
  with False show ?thesis by blast
qed


lemma mapE_fails:
  "\<exists>x\<in>set xs. f x = Inl TypeError \<Longrightarrow> \<forall>x\<in>set xs. \<forall>e. f x = Inl e \<longrightarrow> e = TypeError \<Longrightarrow>
   mapE f xs = Inl TypeError"
proof (induction xs)
  case Nil
  then show ?case by simp
next
  case (Cons x xs)
  show ?case
  proof (cases "f x")
    case (Inl e)
    with Cons.prems(2) show ?thesis by simp
  next
    case (Inr y)
    with Cons show ?thesis by (cases "mapE f xs") auto
  qed
qed

lemma filterE_fails:
  "\<exists>x\<in>set xs. p x = Inl TypeError \<Longrightarrow> \<forall>x\<in>set xs. \<forall>e. p x = Inl e \<longrightarrow> e = TypeError \<Longrightarrow>
   filterE p xs = Inl TypeError"
proof (induction xs)
  case Nil
  then show ?case by simp
next
  case (Cons x xs)
  show ?case
  proof (cases "p x")
    case (Inl e)
    with Cons.prems(2) show ?thesis by simp
  next
    case (Inr y)
    with Cons show ?thesis by (cases "filterE p xs") auto
  qed
qed

lemma getProp_nullish: "isNullish row \<Longrightarrow> getProp row k = Inl TypeError"
  by (auto simp: isNullish_def)

lemma mapE_getProp_null:
  assumes "list_ex isNullish rows"
  shows "mapE (\<lambda>row. getProp row k) rows = Inl TypeError"
  using assms by (intro mapE_fails) (auto simp: list_ex_iff dest: getProp_nullish getProp_TypeError)

lemma filterE_isInvalidRow_null:
  assumes "list_ex isNullish rows"
  shows "filterE (isInvalidRow va vr) rows = Inl TypeError"
proof (rule filterE_fails)
  from assms obtain row where "row \<in> set rows" and "isNullish row"
    by (auto simp: list_ex_iff)
  then show "\<exists>x\<in>set rows. isInvalidRow va vr x = Inl TypeError"
    by (intro bexI [of _ row]) (simp_all add: isInvalidRow_def getProp_nullish)
  show "\<forall>x\<in>set rows. \<forall>e. isInvalidRow va vr x = Inl e \<longrightarrow> e = TypeError"
    by (auto dest: isInvalidRow_error)
qed

lemma not_nullish_rows:
  "\<not> list_ex isNullish rows \<Longrightarrow> \<forall>row\<in>set rows. row \<noteq> JNull \<and> row \<noteq> JUndefined"
  by (auto simp: list_ex_iff isNullish_def)

lemma elementTexts_strings: "elementTexts (map JStr names) = Inr (map (\<lambda>s. [Chars s]) names)"
  by (induction names) simp_all

lemma arrayJoin_strings:
  "arrayJoin sep (map JStr names) = Inr (joinPieces [Chars sep] (map (\<lambda>s. [Chars s]) names))"
  by (simp add: arrayJoin_def elementTexts_strings)

lemma validateUnlocking_spec:
  assumes "truthy (agents pd)" and "truthy (investmentRounds pd)"
    and "getRowsArray (unlockingRowsOf pd) \<noteq> []"
  shows "validateUnlocking pd =
    (if agentRowsOf pd = [] \<and> investmentRoundRowsOf pd = []
     then Inl (UnlockingDataError ''Unlocking requires agent or investment round data'')
     else if list_ex isNullish
               (agentRowsOf pd @ investmentRoundRowsOf pd @ getRowsArray (unlockingRowsOf pd))
     then Inl TypeError
     else if unresolvedValues pd = [] then Inr ()
     else
       (case arrayJoin (lit '', '') (unresolvedValues pd) of
          Inl e \<Rightarrow> Inl e
        | Inr joined \<Rightarrow>
            Inl (InvalidAgentReferenceError
                   (Chars (lit ''Invalid agents in unlocking data: '') # joined))))"
proof -
  let ?ar = "getRowsArray (optProp (agents pd) ''rows'')"
  let ?ir = "getRowsArray (optProp (investmentRounds pd) ''rows'')"
  let ?ur = "getRowsArray (unlockingRowsOf pd)"
  let ?bad = "filter (\<lambda>row. \<not> rowResolves ?ar ?ir row) ?ur"
  note g = truthy_getProp [OF assms(1)] truthy_getProp [OF assms(2)]
  have p: "getPath (vestingAndUnlocking pd) [''tables'', ''unlocking'', ''rows''] =
      Inr (unlockingRowsOf pd)"
    using assms(3) unfolding unlockingRowsOf_def by (rule optProp_chain_rows)
  have u: "unresolvedValues pd = map (\<lambda>row. optProp row ''agent_optionValue'') ?bad"
    by (simp add: unresolvedValues_def agentRowsOf_def investmentRoundRowsOf_def)
  show ?thesis
  proof (cases "?ar = [] \<and> ?ir = []")
    case True
    then show ?thesis
      unfolding validateUnlocking_def Let_def g sum.case
      by (simp add: agentRowsOf_def investmentRoundRowsOf_def)
  next
    case ne: False
    then have ne': "\<not> (length ?ar = 0 \<and> length ?ir = 0)" by simp
    show ?thesis
    proof (cases "list_ex isNullish ?ar")
      case True
      from mapE_getProp_null [OF this] ne True show ?thesis
        unfolding validateUnlocking_def Let_def g sum.case if_not_P [OF ne']
        by (simp add: agentRowsOf_def investmentRoundRowsOf_def)
    next
      case na: False
      have a: "mapE (\<lambda>row. getProp row ''agentName'') ?ar =
          Inr (map (\<lambda>row. optProp row ''agentName'') ?ar)"
        using not_nullish_rows [OF na] by (rule mapE_getProp_total)
      show ?thesis
      proof (cases "list_ex isNullish ?ir")
        case True
        from mapE_getProp_null [OF this] ne na True show ?thesis
          unfolding validateUnlocking_def Let_def g sum.case if_not_P [OF ne'] a
          by (simp add: agentRowsOf_def investmentRoundRowsOf_def)
      next
        case ni: False
        have i: "mapE (\<lambda>row. getProp row ''source_name'') ?ir =
            Inr (map (\<lambda>row. optProp row ''source_name'') ?ir)"
          using not_nullish_rows [OF ni] by (rule mapE_getProp_total)
        show ?thesis
        proof (cases "list_ex isNullish ?ur")
          case True
          from filterE_isInvalidRow_null [OF this] ne na ni True show ?thesis
            unfolding validateUnlocking_def Let_def g sum.case if_not_P [OF ne'] a i p
            by (simp add: agentRowsOf_def investmentRoundRowsOf_def)
        next
          case nu: False
          note rows = not_nullish_rows [OF nu]
          have f: "filterE (isInvalidRow (map (\<lambda>row. optProp row ''agentName'') ?ar)
                (map (\<lambda>row. optProp row ''source_name'') ?ir)) ?ur = Inr ?bad"
            using rows by (intro filterE_total) (simp add: isInvalidRow_spec)
          have v: "mapE (\<lambda>row. getProp row ''agent_optionValue'') ?bad =
              Inr (map (\<lambda>row. optProp row ''agent_optionValue'') ?bad)"
            using rows by (intro mapE_getProp_total) simp
          from ne na ni nu show ?thesis
            unfolding validateUnlocking_def Let_def g sum.case if_not_P [OF ne'] a i p f v u
            by (auto simp: agentRowsOf_def investmentRoundRowsOf_def)
        qed
      qed
    qed
  qed
qed

subsection \<open>Validation of \<^verbatim>\<open>unlocking\<close>\<close>

text \<open>
  Claim C5, as amended. Take a loaded configuration with \<^verbatim>\<open>unlocking\<close> among the
  inferred services, on which the vesting check has not already failed (\<^verbatim>\<open>vesting\<close> is
  inactive, or pool and agent rows exist). Then the validator fails with
  \<open>UnlockingDataError\<close> exactly when there is neither an agent row nor an investment
  round row. Otherwise it throws a \<^verbatim>\<open>TypeError\<close> if an agent, investment round or
  unlocking row is \<^verbatim>\<open>null\<close>; else it succeeds when every unlocking row resolves; else
  it joins the \<^verbatim>\<open>agent_optionValue\<close> of every row that does not resolve, in row order
  with duplicates, with a comma and a space, and fails with
  \<open>InvalidAgentReferenceError\<close> and that list, unless one of the values has no text (an
  object with an own \<^verbatim>\<open>toString\<close> property, or an array holding one), on which the join
  throws a \<^verbatim>\<open>TypeError\<close>. A row whose type is neither \<^verbatim>\<open>agent\<close> nor
  \<^verbatim>\<open>investmentRound\<close> never resolves. The monolithic script validates alike.
\<close>

theorem unlocking_validation:
  assumes "loadProjectData file = Inr pd"
    and "determineActiveServices pd = Inr act"
    and "''unlocking'' \<in> set act"
    and "''vesting'' \<in> set act \<longrightarrow> validateVesting pd = Inr ()"
  shows "(validateServiceData act pd = Inl (UnlockingDataError m) \<longleftrightarrow>
           agentRowsOf pd = [] \<and> investmentRoundRowsOf pd = []
           \<and> m = ''Unlocking requires agent or investment round data'')
    \<and> validateServiceData act pd =
         (if agentRowsOf pd = [] \<and> investmentRoundRowsOf pd = []
          then Inl (UnlockingDataError ''Unlocking requires agent or investment round data'')
          else if list_ex isNullish
                    (agentRowsOf pd @ investmentRoundRowsOf pd @ getRowsArray (unlockingRowsOf pd))
          then Inl TypeError
          else if unresolvedValues pd = [] then Inr ()
          else
            (case arrayJoin (lit '', '') (unresolvedValues pd) of
               Inl e \<Rightarrow> Inl e
             | Inr joined \<Rightarrow>
                 Inl (InvalidAgentReferenceError
                        (Chars (lit ''Invalid agents in unlocking data: '') # joined))))
    \<and> (arrayJoin sep values = Inl e \<longleftrightarrow> e = TypeError \<and> list_ex unprintable values)
    \<and> arrayJoin sep (map JStr names) =
         Inr (joinPieces [Chars sep] (map (\<lambda>s. [Chars s]) names))
    \<and> (optProp row ''agent_optionType'' \<noteq> JStr (lit ''agent'')
          \<and> optProp row ''agent_optionType'' \<noteq> JStr (lit ''investmentRound'')
        \<longrightarrow> \<not> rowResolves agentRows investmentRoundRows row)
    \<and> (mono_rows pd = Inr rs \<longrightarrow> mono_validate act rs pd = validateServiceData act pd)"
proof -
  note t = loaded_sections_truthy [OF assms(1)]
  from assms(3,4) have v: "validateServiceData act pd = validateUnlocking pd"
    by (cases "''vesting'' \<in> set act") (simp_all add: validateServiceData_def)
  from active_members(2) [OF assms(2)] assms(3)
  have u: "getRowsArray (unlockingRowsOf pd) \<noteq> []"
    by simp
  have a: "validateServiceData act pd = Inl (UnlockingDataError m) \<longleftrightarrow>
           agentRowsOf pd = [] \<and> investmentRoundRowsOf pd = []
           \<and> m = ''Unlocking requires agent or investment round data''"
    unfolding v by (rule validateUnlocking_data_error [OF t])
  have b: "validateServiceData act pd =
         (if agentRowsOf pd = [] \<and> investmentRoundRowsOf pd = []
          then Inl (UnlockingDataError ''Unlocking requires agent or investment round data'')
          else if list_ex isNullish
                    (agentRowsOf pd @ investmentRoundRowsOf pd @ getRowsArray (unlockingRowsOf pd))
          then Inl TypeError
          else if unresolvedValues pd = [] then Inr ()
          else
            (case arrayJoin (lit '', '') (unresolvedValues pd) of
               Inl e \<Rightarrow> Inl e
             | Inr joined \<Rightarrow>
                 Inl (InvalidAgentReferenceError
                        (Chars (lit ''Invalid agents in unlocking data: '') # joined))))"
    unfolding v by (rule validateUnlocking_spec [OF t u])
  have j: "arrayJoin sep values = Inl e \<longleftrightarrow> e = TypeError \<and> list_ex unprintable values"
    by (rule arrayJoin_error)
  have s: "arrayJoin sep (map JStr names) =
         Inr (joinPieces [Chars sep] (map (\<lambda>s. [Chars s]) names))"
    by (rule arrayJoin_strings)
  have c: "optProp row ''agent_optionType'' \<noteq> JStr (lit ''agent'')
          \<and> optProp row ''agent_optionType'' \<noteq> JStr (lit ''investmentRound'')
        \<longrightarrow> \<not> rowResolves agentRows investmentRoundRows row"
    by (simp add: rowResolves_def)
  have e: "mono_rows pd = Inr rs \<longrightarrow> mono_validate act rs pd = validateServiceData act pd"
  proof
    assume h: "mono_rows pd = Inr rs"
    then have "mono_activeServices rs = Inr act"
      using mono_active_eq [of pd rs] assms(2) by simp
    from mono_validate_eq [OF h this t(1)]
    show "mono_validate act rs pd = validateServiceData act pd"
      by simp
  qed
  show ?thesis
    by (intro conjI a b j s c e)
qed

theorem unlocking_validation_witness:
  "loadProjectData (Inr mixedUnlockingDoc) = Inr mixedUnlockingConfig
   \<and> determineActiveServices mixedUnlockingConfig = Inr [''unlocking'']
   \<and> unresolvedValues mixedUnlockingConfig =
       [JStr (lit ''Bob''), JStr (lit ''Alice''), JStr (lit ''Bob'')]
   \<and> validateServiceData [''unlocking''] mixedUnlockingConfig =
       Inl (InvalidAgentReferenceError
          [Chars (lit ''Invalid agents in unlocking data: ''), Chars (lit ''Bob''),
           Chars (lit '', ''), Chars (lit ''Alice''), Chars (lit '', ''), Chars (lit ''Bob'')])"
proof -
  have l: "loadProjectData (Inr mixedUnlockingDoc) = Inr mixedUnlockingConfig"
    by code_simp
  have a: "determineActiveServices mixedUnlockingConfig = Inr [''unlocking'']"
    by code_simp
  have u: "''unlocking'' \<in> set [''unlocking'']"
    by simp
  have v: "''vesting'' \<in> set [''unlocking''] \<longrightarrow> validateVesting mixedUnlockingConfig = Inr ()"
    by simp
  have ar: "agentRowsOf mixedUnlockingConfig \<noteq> []"
    by code_simp
  have n: "\<not> list_ex isNullish (agentRowsOf mixedUnlockingConfig
        @ investmentRoundRowsOf mixedUnlockingConfig
        @ getRowsArray (unlockingRowsOf mixedUnlockingConfig))"
    by code_simp
  have x: "unresolvedValues mixedUnlockingConfig =
      map JStr [lit ''Bob'', lit ''Alice'', lit ''Bob'']"
    by code_simp
  note spec = unlocking_validation [OF l a u v, of _ "lit '', ''" _ _ "[lit ''Bob'', lit ''Alice'', lit ''Bob'']"]
  note r = spec [THEN conjunct2, THEN conjunct1]
  note s = spec [THEN conjunct2, THEN conjunct2, THEN conjunct2, THEN conjunct1]
  from r ar n have r': "validateServiceData [''unlocking''] mixedUnlockingConfig =
      (case arrayJoin (lit '', '') (unresolvedValues mixedUnlockingConfig) of
         Inl e \<Rightarrow> Inl e
       | Inr joined \<Rightarrow>
           Inl (InvalidAgentReferenceError
                  (Chars (lit ''Invalid agents in unlocking data: '') # joined)))"
    by (simp add: x)
  have r'': "validateServiceData [''unlocking''] mixedUnlockingConfig =
       Inl (InvalidAgentReferenceError
          [Chars (lit ''Invalid agents in unlocking data: ''), Chars (lit ''Bob''),
           Chars (lit '', ''), Chars (lit ''Alice''), Chars (lit '', ''), Chars (lit ''Bob'')])"
    unfolding r' x s by simp
  from x have x': "unresolvedValues mixedUnlockingConfig =
       [JStr (lit ''Bob''), JStr (lit ''Alice''), JStr (lit ''Bob'')]"
    by simp
  show ?thesis
    by (intro conjI l a x' r'')
qed

text \<open>
  C5 as stated fails on three configurations, in each of which \<^verbatim>\<open>unlocking\<close> is
  active. In the first \<^verbatim>\<open>vesting\<close> is active too and there is neither an agent nor an
  investment round: the error is that of the vesting check, which runs first. In the
  second the only unlocking row resolves, but one of the agent rows is \<^verbatim>\<open>null\<close>: a
  \<^verbatim>\<open>TypeError\<close> is thrown. In the third the only unlocking row does not resolve, and its
  value is the object \<^verbatim>\<open>{"toString": 0}\<close>: the join throws a \<^verbatim>\<open>TypeError\<close>.
\<close>

theorem unlocking_validation_counterexample:
  "loadProjectData (Inr vestingUnlockingDoc) = Inr vestingUnlockingConfig
   \<and> determineActiveServices vestingUnlockingConfig = Inr [''vesting'', ''unlocking'']
   \<and> agentRowsOf vestingUnlockingConfig = []
   \<and> investmentRoundRowsOf vestingUnlockingConfig = []
   \<and> validateServiceData [''vesting'', ''unlocking''] vestingUnlockingConfig =
       Inl (VestingDataError ''Vesting requires agent data'')
   \<and> main echoRender fullTemplateDir (Inr vestingUnlockingDoc) =
       failed (VestingDataError ''Vesting requires agent data'')
   \<and> loadProjectData (Inr nullAgentRowDoc) = Inr nullAgentRowConfig
   \<and> determineActiveServices nullAgentRowConfig = Inr [''unlocking'']
   \<and> unresolvedValues nullAgentRowConfig = []
   \<and> validateServiceData [''unlocking''] nullAgentRowConfig = Inl TypeError
   \<and> loadProjectData (Inr objectValueDoc) = Inr objectValueConfig
   \<and> determineActiveServices objectValueConfig = Inr [''unlocking'']
   \<and> unresolvedValues objectValueConfig = [JObj [(''toString'', JNum (Fin 0))]]
   \<and> validateServiceData [''unlocking''] objectValueConfig = Inl TypeError"
  by code_simp

end
